theory Spec2Isabelle
  imports Main "HOL-Library.Sublist"
begin

section \<open>Python values and exceptions\<close>

text \<open>
  The specification file is YAML; the parser hands the validator a nested Python value.
  The data model of the specification has mappings with string keys, sequences and the
  scalars string, integer and boolean; \<open>YNull\<close> is Python's \<open>None\<close>. A mapping is
  kept as an association list in document order, because \<open>dict.items()\<close> iterates in
  that order; a \<open>dict\<close> never holds a key twice, so the lists of a real document have
  distinct keys.
\<close>

datatype yaml =
    YNull
  | YBool bool
  | YInt int
  | YStr string
  | YSeq "yaml list"
  | YMap "(string \<times> yaml) list"

text \<open>The exceptions the modelled code can raise; an uncaught one ends the call.\<close>

datatype pyerr =
    TypeError
  | KeyError
  | AttributeError
  | ValueError
  | IndexError
  | AddrFormatError
  | OtherError string

type_synonym 'a py = "pyerr + 'a"

definition py_bind :: "'a py \<Rightarrow> ('a \<Rightarrow> 'b py) \<Rightarrow> 'b py" where
  "py_bind m f = (case m of Inl e \<Rightarrow> Inl e | Inr x \<Rightarrow> f x)"

lemma py_bind_Inl [simp]: "py_bind (Inl e) f = Inl e"
  by (simp add: py_bind_def)

lemma py_bind_Inr [simp]: "py_bind (Inr x) f = f x"
  by (simp add: py_bind_def)

lemma py_bind_cong [fundef_cong]:
  "m = m' \<Longrightarrow> (\<And>x. m' = Inr x \<Longrightarrow> f x = f' x) \<Longrightarrow> py_bind m f = py_bind m' f'"
  by (cases m') (simp_all add: py_bind_def)

text \<open>
  \<open>k in v\<close> for a string \<open>k\<close>: key membership in a dict, element membership in a list,
  substring test in a string, and a \<open>TypeError\<close> for \<open>None\<close>, booleans and integers.
\<close>

fun py_in :: "string \<Rightarrow> yaml \<Rightarrow> bool py" where
  "py_in k (YMap kvs) = Inr (k \<in> set (map fst kvs))"
| "py_in k (YSeq xs) = Inr (YStr k \<in> set xs)"
| "py_in k (YStr s) = Inr (sublist k s)"
| "py_in k _ = Inl TypeError"

text \<open>
  \<open>v[k]\<close> for a string \<open>k\<close>: a dict raises \<open>KeyError\<close> on a missing key; every other
  value raises \<open>TypeError\<close> (lists and strings take integer indices only).
\<close>

fun py_getitem :: "yaml \<Rightarrow> string \<Rightarrow> yaml py" where
  "py_getitem (YMap kvs) k = (case map_of kvs k of None \<Rightarrow> Inl KeyError | Some v \<Rightarrow> Inr v)"
| "py_getitem _ k = Inl TypeError"

text \<open>\<open>v.items()\<close>: only a dict has the method.\<close>

fun py_items :: "yaml \<Rightarrow> (string \<times> yaml) list py" where
  "py_items (YMap kvs) = Inr kvs"
| "py_items _ = Inl AttributeError"

fun is_int :: "yaml \<Rightarrow> bool" where
  "is_int (YInt i) = True"
| "is_int _ = False"

fun is_str :: "yaml \<Rightarrow> bool" where
  "is_str (YStr s) = True"
| "is_str _ = False"

fun is_list :: "yaml \<Rightarrow> bool" where
  "is_list (YSeq xs) = True"
| "is_list _ = False"

fun is_bool :: "yaml \<Rightarrow> bool" where
  "is_bool (YBool b) = True"
| "is_bool _ = False"

fun is_dict :: "yaml \<Rightarrow> bool" where
  "is_dict (YMap kvs) = True"
| "is_dict _ = False"

section \<open>Logging\<close>

datatype level = DEBUG | INFO | WARNING | ERROR

text \<open>A log record: the level, the format string and its arguments.\<close>

type_synonym logline = "level \<times> string \<times> yaml list"

section \<open>The generic interface (automation/interface.py)\<close>

text \<open>
  \<open>Interface\<close> holds the metadata of the specification and the platform-specific
  interface object chosen by its constructor. The platform object is a parameter here: each
  of its four methods acts on the platform state \<open>'s\<close>, may raise, and writes its own log
  lines.
\<close>

type_synonym 's platform_op = "'s \<Rightarrow> (unit py) \<times> 's \<times> logline list"

record 's platform_interface =
  impl_create_masters :: "'s platform_op"
  impl_deploy_environment :: "'s platform_op"
  impl_cleanup_masters :: "bool \<Rightarrow> 's platform_op"
  impl_cleanup_environment :: "bool \<Rightarrow> 's platform_op"

record 's Interface =
  self_metadata :: yaml
  self_interface :: "'s platform_interface"

text \<open>
  Each public operation evaluates \<open>self.metadata["name"]\<close> for its log line, logs at
  level INFO and then delegates.
\<close>

definition logged_call ::
  "'s Interface \<Rightarrow> string \<Rightarrow> 's platform_op \<Rightarrow> 's platform_op" where
  "logged_call self fmt op s =
     (case py_getitem (self_metadata self) ''name'' of
        Inl e \<Rightarrow> (Inl e, s, [])
      | Inr name \<Rightarrow>
          (case op s of (r, s', lg) \<Rightarrow> (r, s', (INFO, fmt, [name]) # lg)))"

definition Interface_create_masters :: "'s Interface \<Rightarrow> 's platform_op" where
  "Interface_create_masters self =
     logged_call self ''Creating Master instances for %s''
       (impl_create_masters (self_interface self))"

definition Interface_deploy_environment :: "'s Interface \<Rightarrow> 's platform_op" where
  "Interface_deploy_environment self =
     logged_call self ''Deploying environment for %s''
       (impl_deploy_environment (self_interface self))"

definition Interface_cleanup_masters :: "'s Interface \<Rightarrow> bool \<Rightarrow> 's platform_op" where
  "Interface_cleanup_masters self network_cleanup =
     logged_call self ''Cleaning up Master instances for %s''
       (impl_cleanup_masters (self_interface self) network_cleanup)"

text \<open>The source delegates to \<open>self.interface.cleanup_masters\<close> here as well.\<close>

definition Interface_cleanup_environment :: "'s Interface \<Rightarrow> bool \<Rightarrow> 's platform_op" where
  "Interface_cleanup_environment self network_cleanup =
     logged_call self ''Cleaning up environment for %s''
       (impl_cleanup_masters (self_interface self) network_cleanup)"

text \<open>Replacing the format string of the first log line, the only place the two differ.\<close>

fun relabel :: "string \<Rightarrow> logline list \<Rightarrow> logline list" where
  "relabel fmt [] = []"
| "relabel fmt ((lv, f, args) # rest) = (lv, fmt, args) # rest"

definition relabel_result ::
  "string \<Rightarrow> (unit py) \<times> 's \<times> logline list \<Rightarrow> (unit py) \<times> 's \<times> logline list" where
  "relabel_result fmt r = (case r of (x, s, lg) \<Rightarrow> (x, s, relabel fmt lg))"

section \<open>The vSphere inventory (adles/vsphere/folder_utils.py)\<close>

text \<open>
  A folder of the inventory is a tree: every managed entity has an identity (its managed
  object reference), a class, usually a name, and a folder has its children in
  \<open>childEntity\<close>. The handle the functions return is the entity itself; two handles are the
  same when the entities are. The functions are decorated with a check, defined outside the
  modelled files, that their first argument is a folder; the model is about calls that pass
  it.
\<close>

datatype vimclass = VimFolder | VimVirtualMachine | VimManagedEntity | VimOther

datatype entity =
  Entity (moid: nat) (entity_name: "string option") (vimclass: vimclass) (childEntity: "entity list")

text \<open>\<open>isinstance(item, vimtype)\<close>: every class is a subclass of \<open>vim.ManagedEntity\<close>.\<close>

definition isinstance :: "entity \<Rightarrow> vimclass \<Rightarrow> bool" where
  "isinstance item vimtype = (vimclass item = vimtype \<or> vimtype = VimManagedEntity)"

definition is_folder :: "entity \<Rightarrow> bool" where
  "is_folder item = isinstance item VimFolder"

text \<open>\<open>str.lower()\<close> on the names of the inventory, which are ASCII.\<close>

definition lower_char :: "char \<Rightarrow> char" where
  "lower_char c =
     (case map_of (zip ''ABCDEFGHIJKLMNOPQRSTUVWXYZ'' ''abcdefghijklmnopqrstuvwxyz'') c of
        Some d \<Rightarrow> d
      | None \<Rightarrow> c)"

definition lower :: "string \<Rightarrow> string" where
  "lower s = map lower_char s"

text \<open>
  \<open>find_in_folder\<close> lowers the name and walks over \<open>folder.childEntity\<close>
  (\<open>find_in_children\<close> is that loop). A child whose name matches is returned unless a
  \<open>vimtype\<close> is given and the child is not of it, in which case the loop goes on. For any
  other child that is a folder, \<open>recursive\<close> makes the function call itself on the child;
  the value of that call is not used and the loop goes on.
\<close>

fun find_in_folder :: "entity \<Rightarrow> string \<Rightarrow> bool \<Rightarrow> vimclass option \<Rightarrow> entity option"
  and find_in_children ::
    "entity list \<Rightarrow> string \<Rightarrow> bool \<Rightarrow> vimclass option \<Rightarrow> entity option" where
  "find_in_folder (Entity i n c children) nm recursive vimtype =
     find_in_children children (lower nm) recursive vimtype"
| "find_in_children [] nm recursive vimtype = None"
| "find_in_children (item # rest) nm recursive vimtype =
     (if (case entity_name item of None \<Rightarrow> False | Some n \<Rightarrow> lower n = nm) then
        (if (case vimtype of None \<Rightarrow> False | Some t \<Rightarrow> \<not> isinstance item t)
         then find_in_children rest nm recursive vimtype
         else Some item)
      else if recursive \<and> is_folder item then
        (let ignored = find_in_folder item nm recursive vimtype
         in find_in_children rest nm recursive vimtype)
      else find_in_children rest nm recursive vimtype)"

text \<open>
  \<open>folder.CreateFolder(name)\<close> belongs to the platform and is a parameter: it returns the
  folder with the new child and the child, or raises one of the platform's faults.
\<close>

datatype fault = DuplicateName string | InvalidName string | OtherFault pyerr

type_synonym create_op = "entity \<Rightarrow> string \<Rightarrow> fault + (entity \<times> entity)"

text \<open>
  \<open>create_folder\<close> returns the folder as it is afterwards, the handle (\<open>None\<close> after a
  caught fault), and the log lines; any other fault is raised.
\<close>

definition sq :: string where
  "sq = [CHR 0x27]"

definition create_folder ::
  "create_op \<Rightarrow> entity \<Rightarrow> string \<Rightarrow> (entity option) py \<times> entity \<times> logline list" where
  "create_folder CreateFolder folder folder_name =
     (let fname = (case entity_name folder of None \<Rightarrow> YNull | Some n \<Rightarrow> YStr n) in
      case find_in_folder folder folder_name False None of
        Some exists \<Rightarrow>
          (Inr (Some exists), folder,
           [(WARNING, ''Folder '' @ sq @ ''%s'' @ sq @ '' already exists in folder '' @ sq @ ''%s'' @ sq, [YStr folder_name, fname])])
      | None \<Rightarrow>
          (let dbg = (DEBUG, ''Creating folder '' @ sq @ ''%s'' @ sq @ '' in folder '' @ sq @ ''%s'' @ sq, [YStr folder_name, fname]) in
           case CreateFolder folder folder_name of
             Inr (folder', created) \<Rightarrow> (Inr (Some created), folder', [dbg])
           | Inl (DuplicateName dupe) \<Rightarrow>
               (Inr None, folder,
                [dbg, (ERROR, ''Could not create folder '' @ sq @ ''%s'' @ sq @ '' in '' @ sq @ ''%s'' @ sq
                         @ '': folder already exists as '' @ sq @ ''%s'' @ sq,
                       [YStr folder_name, fname, YStr dupe])])
           | Inl (InvalidName invalid) \<Rightarrow>
               (Inr None, folder,
                [dbg, (ERROR, ''Could not create folder '' @ sq @ ''%s'' @ sq @ '' in '' @ sq @ ''%s'' @ sq
                         @ '': Invalid folder name '' @ sq @ ''%s'' @ sq,
                       [YStr folder_name, fname, YStr invalid])])
           | Inl (OtherFault e) \<Rightarrow> (Inl e, folder, [dbg])))"

section \<open>The specification validator (adles/parser.py)\<close>

text \<open>
  Every checker returns the pair (number of errors, number of warnings), or raises. Each
  count is incremented exactly where the source logs a diagnostic of that severity; the log
  lines do not influence the counts and are left out of the model of the validator.
\<close>

type_synonym counts = "nat \<times> nat"

text \<open>
  What the validator takes from outside the repository's own code: the file system
  (\<open>os.path.exists\<close>, opening and loading a YAML file, \<open>utils.read_json\<close>, each of
  which returns \<open>None\<close> as \<open>YNull\<close>), the \<open>netaddr\<close> library and \<open>int()\<close> on strings.
\<close>

record ipnet =
  is_reserved :: bool
  is_multicast :: bool
  is_loopback :: bool
  is_private :: bool

record env =
  path_exists :: "yaml \<Rightarrow> bool py"
  load_yaml :: "yaml \<Rightarrow> yaml py"
  read_json :: "yaml \<Rightarrow> yaml py"
  IPNetwork :: "yaml \<Rightarrow> ipnet py"
  int_of_string :: "string \<Rightarrow> int py"

text \<open>\<open>parse_file\<close> opens the file and loads it; a YAML syntax error gives \<open>None\<close>.\<close>

definition parse_file :: "env \<Rightarrow> yaml \<Rightarrow> yaml py" where
  "parse_file env filename = load_yaml env filename"

text \<open>\<open>int(v)\<close>.\<close>

fun py_int :: "env \<Rightarrow> yaml \<Rightarrow> int py" where
  "py_int env (YInt i) = Inr i"
| "py_int env (YBool b) = Inr (if b then 1 else 0)"
| "py_int env (YStr s) = int_of_string env s"
| "py_int env _ = Inl TypeError"

text \<open>
  A \<open>for\<close> loop that adds up the counts of its iterations, in order; an exception in one
  iteration ends the loop.
\<close>

fun sum_items :: "('a \<Rightarrow> counts py) \<Rightarrow> 'a list \<Rightarrow> counts py" where
  "sum_items f [] = Inr (0, 0)"
| "sum_items f (x # xs) =
     py_bind (f x) (\<lambda>(e, w).
     py_bind (sum_items f xs) (\<lambda>(e', w'). Inr (e + e', w + w')))"

text \<open>
  \<open>_checker(value_list, source, data, flag)\<close> counts the values that are not in
  \<open>data\<close>; \<open>source\<close> and \<open>flag\<close> only choose the log line.
\<close>

fun checker :: "string list \<Rightarrow> yaml \<Rightarrow> nat py" where
  "checker [] data = Inr 0"
| "checker (v # vs) data =
     py_bind (py_in v data) (\<lambda>found.
     py_bind (checker vs data) (\<lambda>num_hits. Inr ((if found then 0 else 1) + num_hits)))"

subsection \<open>Infrastructure\<close>

text \<open>
  The lists \<open>warnings\<close> and \<open>errors\<close> are assigned before the loop and again in the
  vSphere and Docker branches only, so for the other known platforms they keep the value of
  the previous iteration: they are part of the loop state. An unknown platform is skipped.
\<close>

definition vsphere_config_errors :: "env \<Rightarrow> yaml \<Rightarrow> nat py" where
  "vsphere_config_errors env config =
     py_bind (py_in ''login-file'' config) (\<lambda>has_login.
     py_bind (if has_login
              then py_bind (py_getitem config ''login-file'') (\<lambda>f.
                   py_bind (read_json env f) (\<lambda>r. Inr (if r = YNull then 1 else 0)))
              else Inr 0) (\<lambda>e1.
     py_bind (py_in ''host-list'' config) (\<lambda>has_hosts.
     py_bind (if has_hosts
              then py_bind (py_getitem config ''host-list'') (\<lambda>h.
                   Inr (if \<not> is_list h then 1 else 0))
              else Inr 0) (\<lambda>e2.
     py_bind (py_in ''thresholds'' config) (\<lambda>has_thr.
     py_bind (if has_thr
              then py_bind (py_getitem config ''thresholds'') (\<lambda>t.
                   checker [''folder'', ''service''] t)
              else Inr 0) (\<lambda>e3.
     Inr (e1 + e2 + e3)))))))"

definition docker_config_errors :: "yaml \<Rightarrow> nat py" where
  "docker_config_errors config =
     py_bind (py_in ''registry'' config) (\<lambda>has_reg.
       if has_reg
       then py_bind (py_getitem config ''registry'') (\<lambda>r. checker [''url'', ''login-file''] r)
       else Inr 0)"

fun verify_infra_loop ::
  "env \<Rightarrow> string list \<Rightarrow> string list \<Rightarrow> (string \<times> yaml) list \<Rightarrow> counts py" where
  "verify_infra_loop env warnings errors [] = Inr (0, 0)"
| "verify_infra_loop env warnings errors ((platform, config) # rest) =
     (if platform = ''vmware-vsphere'' \<or> platform = ''docker''
         \<or> platform = ''amazon-aws'' \<or> platform = ''digital-ocean'' \<or> platform = ''hyper-v''
      then
        (let warnings' =
               (if platform = ''vmware-vsphere''
                then [''port'', ''login-file'', ''datacenter'', ''datastore'', ''server-root'',
                      ''vswitch'']
                else if platform = ''docker'' then [''url'']
                else warnings);
             errors' =
               (if platform = ''vmware-vsphere'' then [''hostname'', ''template-folder'']
                else if platform = ''docker'' then []
                else errors)
         in
         py_bind (if platform = ''vmware-vsphere'' then vsphere_config_errors env config
                  else if platform = ''docker'' then docker_config_errors config
                  else Inr 0) (\<lambda>e0.
         py_bind (checker warnings' config) (\<lambda>w1.
         py_bind (checker errors' config) (\<lambda>e1.
         py_bind (verify_infra_loop env warnings' errors' rest) (\<lambda>(e, w).
         Inr (e0 + e1 + e, w1 + w))))))
      else verify_infra_loop env warnings errors rest)"

definition verify_infra_syntax :: "env \<Rightarrow> yaml \<Rightarrow> counts py" where
  "verify_infra_syntax env infra =
     py_bind (py_items infra) (\<lambda>kvs. verify_infra_loop env [] [] kvs)"

subsection \<open>Metadata\<close>

definition verify_exercise_metadata_syntax :: "env \<Rightarrow> yaml \<Rightarrow> counts py" where
  "verify_exercise_metadata_syntax env metadata =
     py_bind (checker [''description'', ''version'', ''folder-name''] metadata) (\<lambda>num_warnings.
     py_bind (checker [''name'', ''prefix'', ''infra-file''] metadata) (\<lambda>num_errors.
     py_bind (py_in ''infra-file'' metadata) (\<lambda>has_infra.
       if has_infra then
         py_bind (py_getitem metadata ''infra-file'') (\<lambda>infra_file.
         py_bind (path_exists env infra_file) (\<lambda>ex.
           if \<not> ex then Inr (num_errors + 1, num_warnings)
           else
             py_bind (parse_file env infra_file) (\<lambda>doc.
             py_bind (verify_infra_syntax env doc) (\<lambda>(e, w).
             Inr (num_errors + e, num_warnings + w)))))
       else Inr (num_errors, num_warnings))))"

subsection \<open>Groups\<close>

definition check_group_file :: "env \<Rightarrow> yaml \<Rightarrow> counts py" where
  "check_group_file env filename =
     py_bind (read_json env filename) (\<lambda>r. Inr (if r = YNull then 1 else 0, 0))"

text \<open>
  The body of the loop over the groups. The mechanisms are tried in the order
  \<open>ad-group\<close>, \<open>filename\<close>, \<open>user-list\<close> by an \<open>if\<close>/\<open>elif\<close> chain; a template group
  (one with \<open>instances\<close>) has no \<open>user-list\<close> branch.
\<close>

definition group_entry :: "env \<Rightarrow> string \<times> yaml \<Rightarrow> counts py" where
  "group_entry env kv =
     (case kv of (key, val) \<Rightarrow>
     py_bind (py_in ''instances'' val) (\<lambda>is_template.
       if is_template then
         py_bind (py_getitem val ''instances'') (\<lambda>i.
         let e0 = (if \<not> is_int i then 1 else 0) in
         py_bind (py_in ''ad-group'' val) (\<lambda>has_ad.
           if has_ad then
             py_bind (py_getitem val ''ad-group'') (\<lambda>ad.
             Inr (e0 + (if \<not> is_str ad then 1 else 0), 0))
           else
             py_bind (py_in ''filename'' val) (\<lambda>has_file.
               if has_file then
                 py_bind (py_getitem val ''filename'') (\<lambda>fn.
                 py_bind (check_group_file env fn) (\<lambda>(e, w). Inr (e0 + e, w)))
               else Inr (e0 + 1, 0))))
       else
         py_bind (py_in ''ad-group'' val) (\<lambda>has_ad.
           if has_ad then
             py_bind (py_getitem val ''ad-group'') (\<lambda>ad.
             Inr (if \<not> is_str ad then 1 else 0, 0))
           else
             py_bind (py_in ''filename'' val) (\<lambda>has_file.
               if has_file then
                 py_bind (py_getitem val ''filename'') (\<lambda>fn. check_group_file env fn)
               else
                 py_bind (py_in ''user-list'' val) (\<lambda>has_list.
                   if has_list then
                     py_bind (py_getitem val ''user-list'') (\<lambda>ul.
                     Inr (if \<not> is_list ul then 1 else 0, 0))
                   else Inr (1, 0))))))"

definition verify_groups_syntax :: "env \<Rightarrow> yaml \<Rightarrow> counts py" where
  "verify_groups_syntax env groups =
     py_bind (py_items groups) (\<lambda>kvs. sum_items (group_entry env) kvs)"

subsection \<open>Services and resources\<close>

definition service_entry :: "string \<times> yaml \<Rightarrow> counts py" where
  "service_entry kv =
     (case kv of (key, val) \<Rightarrow>
     py_bind (py_in ''network-interfaces'' val) (\<lambda>has_nics.
     py_bind (if has_nics
              then py_bind (py_getitem val ''network-interfaces'') (\<lambda>n.
                   Inr (if \<not> is_list n then 1 else 0))
              else Inr 0) (\<lambda>e1.
     py_bind (py_in ''provisioner'' val) (\<lambda>has_prov.
     py_bind (if has_prov
              then py_bind (py_getitem val ''provisioner'') (\<lambda>p. checker [''name'', ''file''] p)
              else Inr 0) (\<lambda>e2.
     py_bind (py_in ''note'' val) (\<lambda>has_note.
     py_bind (if has_note
              then py_bind (py_getitem val ''note'') (\<lambda>n. Inr (if \<not> is_str n then 1 else 0))
              else Inr 0) (\<lambda>e3.
     py_bind (py_in ''template'' val) (\<lambda>has_template.
     py_bind (py_in ''image'' val) (\<lambda>has_image.
     py_bind (py_in ''dockerfile'' val) (\<lambda>has_dockerfile.
     py_bind (py_in ''compose-file'' val) (\<lambda>has_compose.
     Inr (e1 + e2 + e3
          + (if has_template \<or> has_image \<or> has_dockerfile \<or> has_compose then 0 else 1),
          0))))))))))))"

definition verify_services_syntax :: "yaml \<Rightarrow> counts py" where
  "verify_services_syntax services =
     py_bind (py_items services) (\<lambda>kvs. sum_items service_entry kvs)"

definition verify_resources_syntax :: "yaml \<Rightarrow> counts py" where
  "verify_resources_syntax resources =
     py_bind (checker [] resources) (\<lambda>num_warnings.
     py_bind (checker [''lab'', ''resource''] resources) (\<lambda>num_errors.
     Inr (num_errors, num_warnings)))"

subsection \<open>Networks\<close>

text \<open>
  The body of the loop of \<open>_verify_network\<close> makes three checks on every entry, in this
  order: the subnet, the VLAN and the increment flag.
\<close>

definition subnet_check :: "env \<Rightarrow> yaml \<Rightarrow> counts py" where
  "subnet_check env val =
     py_bind (py_in ''subnet'' val) (\<lambda>has_subnet.
       if \<not> has_subnet then Inr (0, 1)
       else
         py_bind (py_getitem val ''subnet'') (\<lambda>sn.
           case IPNetwork env sn of
             Inl AddrFormatError \<Rightarrow> Inr (1, 0)
           | Inl e \<Rightarrow> Inl e
           | Inr subnet \<Rightarrow>
               if is_reserved subnet \<or> is_multicast subnet \<or> is_loopback subnet
               then Inr (1, 0)
               else if \<not> is_private subnet then Inr (0, 1)
               else Inr (0, 0)))"

definition vlan_check :: "env \<Rightarrow> string \<Rightarrow> yaml \<Rightarrow> nat py" where
  "vlan_check env name val =
     py_bind (py_in ''vlan'' val) (\<lambda>has_vlan.
       if has_vlan then
         py_bind (if name = ''unique-networks''
                  then py_bind (py_getitem val ''vlan'') (\<lambda>v.
                       py_bind (py_int env v) (\<lambda>i. Inr (i \<ge> 2000)))
                  else Inr False) (\<lambda>too_large.
           if too_large then Inr 1
           else if name = ''generic-networks'' then Inr 1
           else Inr 0)
       else Inr 0)"

definition increment_check :: "string \<Rightarrow> yaml \<Rightarrow> nat py" where
  "increment_check name val =
     py_bind (py_in ''increment'' val) (\<lambda>has_increment.
       if has_increment then
         (if name = ''unique-networks'' then Inr 1
          else py_bind (py_getitem val ''increment'') (\<lambda>inc.
               Inr (if \<not> is_bool inc then 1 else 0)))
       else Inr 0)"

definition network_entry :: "env \<Rightarrow> string \<Rightarrow> string \<times> yaml \<Rightarrow> counts py" where
  "network_entry env name kv =
     (case kv of (key, val) \<Rightarrow>
     py_bind (subnet_check env val) (\<lambda>(e1, w1).
     py_bind (vlan_check env name val) (\<lambda>e2.
     py_bind (increment_check name val) (\<lambda>e3.
     Inr (e1 + e2 + e3, w1)))))"

definition verify_network :: "env \<Rightarrow> string \<Rightarrow> yaml \<Rightarrow> counts py" where
  "verify_network env name network =
     py_bind (py_items network) (\<lambda>kvs. sum_items (network_entry env name) kvs)"

definition verify_networks_syntax :: "env \<Rightarrow> yaml \<Rightarrow> counts py" where
  "verify_networks_syntax env networks =
     py_bind (py_in ''unique-networks'' networks) (\<lambda>has_unique.
     py_bind (if has_unique then Inr True else py_in ''generic-networks'' networks) (\<lambda>any_net.
       if \<not> any_net then Inr (1, 0)
       else py_bind (py_items networks) (\<lambda>kvs.
            sum_items (\<lambda>(name, network). verify_network env name network) kvs)))"

subsection \<open>Folders\<close>

definition verify_scoring_syntax :: "string \<Rightarrow> yaml \<Rightarrow> counts py" where
  "verify_scoring_syntax service_name scoring =
     py_bind (checker [''ports'', ''protocols''] scoring) (\<lambda>num_warnings.
     py_bind (checker [''criteria''] scoring) (\<lambda>num_errors.
     Inr (num_errors, num_warnings)))"

definition folder_keywords :: "string list" where
  "folder_keywords = [''group'', ''master-group'', ''instances'', ''description'', ''enabled'']"

text \<open>The check of \<open>instances\<close>, made for parent and base folders alike.\<close>

definition instances_check :: "yaml \<Rightarrow> nat py" where
  "instances_check val =
     py_bind (py_in ''instances'' val) (\<lambda>has_instances.
       if has_instances then
         py_bind (py_getitem val ''instances'') (\<lambda>inst.
           if is_int inst then Inr 0
           else
             py_bind (py_in ''number'' inst) (\<lambda>has_number.
               if has_number then
                 py_bind (py_getitem inst ''number'') (\<lambda>n. Inr (if \<not> is_int n then 1 else 0))
               else
                 py_bind (py_in ''size-of'' inst) (\<lambda>has_size. Inr (if has_size then 0 else 1))))
       else Inr 0)"

text \<open>A base folder: the group, and every entry of its \<open>services\<close>.\<close>

definition folder_service_entry :: "string \<times> yaml \<Rightarrow> counts py" where
  "folder_service_entry kv =
     (case kv of (skey, svalue) \<Rightarrow>
     py_bind (py_in ''service'' svalue) (\<lambda>has_service.
     py_bind (py_in ''networks'' svalue) (\<lambda>has_networks.
     py_bind (if has_networks
              then py_bind (py_getitem svalue ''networks'') (\<lambda>n.
                   Inr (if \<not> is_list n then 1 else 0))
              else Inr 0) (\<lambda>e2.
     py_bind (py_in ''scoring'' svalue) (\<lambda>has_scoring.
     py_bind (if has_scoring
              then py_bind (py_getitem svalue ''scoring'') (\<lambda>sc. verify_scoring_syntax skey sc)
              else Inr (0, 0)) (\<lambda>(e, w).
     Inr ((if \<not> has_service then 1 else 0) + e2 + e, w)))))))"

definition base_folder_check :: "yaml \<Rightarrow> counts py" where
  "base_folder_check val =
     py_bind (py_in ''group'' val) (\<lambda>has_group.
     py_bind (py_getitem val ''services'') (\<lambda>services.
     py_bind (py_items services) (\<lambda>kvs.
     py_bind (sum_items folder_service_entry kvs) (\<lambda>(e, w).
     Inr ((if \<not> has_group then 1 else 0) + e, w)))))"

text \<open>
  \<open>_verify_folders_syntax\<close> and the loop over its entries. An entry whose key is a
  keyword is passed over (\<open>continue\<close>); one whose value is not a dict counts as an error
  and is passed over; a folder without \<open>services\<close> is a parent and is descended into.
\<close>

fun verify_folders_syntax :: "yaml \<Rightarrow> counts py"
  and verify_folders_items :: "(string \<times> yaml) list \<Rightarrow> counts py" where
  "verify_folders_syntax (YMap kvs) = verify_folders_items kvs"
| "verify_folders_syntax v = Inl AttributeError"
| "verify_folders_items [] = Inr (0, 0)"
| "verify_folders_items ((key, val) # rest) =
     (if key \<in> set folder_keywords then verify_folders_items rest
      else if \<not> is_dict val then
        py_bind (verify_folders_items rest) (\<lambda>(e, w). Inr (1 + e, w))
      else
        py_bind (instances_check val) (\<lambda>e1.
        py_bind (py_in ''services'' val) (\<lambda>is_base.
        py_bind (if is_base then base_folder_check val
                 else if \<not> is_dict val then Inr (1, 0)
                 else verify_folders_syntax val) (\<lambda>(e2, w2).
        py_bind (verify_folders_items rest) (\<lambda>(e, w).
        Inr (e1 + e2 + e, w2 + w))))))"

subsection \<open>The whole specification\<close>

definition required :: "string list" where
  "required = [''metadata'', ''groups'', ''services'', ''networks'', ''folders'']"

definition optional :: "string list" where
  "optional = [''resources'']"

text \<open>The dict \<open>funcs\<close>, in its order of insertion, which is the order of the loop.\<close>

definition funcs :: "env \<Rightarrow> (string \<times> (yaml \<Rightarrow> counts py)) list" where
  "funcs env =
     [(''metadata'', verify_exercise_metadata_syntax env),
      (''groups'', verify_groups_syntax env),
      (''services'', verify_services_syntax),
      (''resources'', verify_resources_syntax),
      (''networks'', verify_networks_syntax env),
      (''folders'', verify_folders_syntax)]"

text \<open>The body of the loop of \<open>verify_exercise_syntax\<close>, which runs over \<open>funcs\<close>.\<close>

definition section_check :: "yaml \<Rightarrow> string \<times> (yaml \<Rightarrow> counts py) \<Rightarrow> counts py" where
  "section_check spec kf =
     (case kf of (key, func) \<Rightarrow>
     py_bind (py_in key spec) (\<lambda>present.
       if \<not> present then
         (if key \<in> set required then Inr (1, 0)
          else if key \<in> set optional then Inr (0, 0)
          else Inr (0, 1))
       else py_bind (py_getitem spec key) func))"

definition verify_exercise_syntax :: "env \<Rightarrow> yaml \<Rightarrow> counts py" where
  "verify_exercise_syntax env spec = sum_items (section_check spec) (funcs env)"

definition verify_package_syntax :: "yaml \<Rightarrow> counts py" where
  "verify_package_syntax package =
     py_bind (py_in ''metadata'' package) (\<lambda>has_metadata.
     py_bind (if \<not> has_metadata then Inr (1, 0)
              else py_bind (py_getitem package ''metadata'') (\<lambda>m.
                   py_bind (checker [''name'', ''description'', ''version''] m) (\<lambda>w.
                   py_bind (checker [''timestamp'', ''tag''] m) (\<lambda>e. Inr (e, w))))) (\<lambda>(e1, w1).
     py_bind (py_in ''contents'' package) (\<lambda>has_contents.
     py_bind (if \<not> has_contents then Inr (1, 0)
              else py_bind (py_getitem package ''contents'') (\<lambda>c.
                   py_bind (checker [''infrastructure'', ''scoring'', ''results'', ''templates'',
                                     ''materials''] c) (\<lambda>w.
                   py_bind (checker [''environment''] c) (\<lambda>e. Inr (e, w))))) (\<lambda>(e2, w2).
     Inr (e1 + e2, w1 + w2)))))"

text \<open>
  \<open>check_syntax\<close> returns the specification or \<open>None\<close> (\<open>YNull\<close>). The path is a
  string; \<open>spec_type\<close> defaults to \<open>exercise\<close>.
\<close>

definition check_syntax :: "env \<Rightarrow> string \<Rightarrow> string \<Rightarrow> yaml py" where
  "check_syntax env specfile_path spec_type =
     py_bind (path_exists env (YStr specfile_path)) (\<lambda>ex.
       if \<not> ex then Inr YNull
       else
         py_bind (parse_file env (YStr specfile_path)) (\<lambda>spec.
           if spec = YNull then Inr YNull
           else if spec_type = ''exercise'' \<or> spec_type = ''package'' \<or> spec_type = ''infra''
           then
             py_bind (if spec_type = ''exercise'' then verify_exercise_syntax env spec
                      else if spec_type = ''package'' then verify_package_syntax spec
                      else verify_infra_syntax env spec) (\<lambda>(errors, warnings).
               if errors = 0 \<and> warnings = 0 then Inr spec
               else if errors = 0 then Inr spec
               else Inr YNull)
           else Inr YNull))"

section \<open>The earlier validator (automation/parser.py)\<close>

text \<open>
  The package \<open>automation\<close> holds an earlier revision of the validator. Its functions of
  the same name carry the prefix \<open>automation\<close> here.
\<close>

definition automation_group_entry :: "string \<times> yaml \<Rightarrow> counts py" where
  "automation_group_entry kv =
     (case kv of (key, val) \<Rightarrow>
     py_bind (py_in ''instances'' val) (\<lambda>is_template.
       if is_template then
         py_bind (py_getitem val ''instances'') (\<lambda>i.
         let e0 = (if \<not> is_int i then 1 else 0) in
         py_bind (py_in ''ad-group'' val) (\<lambda>has_ad.
           if has_ad then Inr (e0, 0)
           else
             py_bind (py_in ''filename'' val) (\<lambda>has_file.
               if has_file then Inr (e0, 0) else Inr (e0 + 1, 0))))
       else
         py_bind (py_in ''ad-group'' val) (\<lambda>has_ad.
           if has_ad then Inr (0, 0)
           else
             py_bind (py_in ''filename'' val) (\<lambda>has_file.
               if has_file then Inr (0, 0)
               else
                 py_bind (py_in ''user-list'' val) (\<lambda>has_list.
                   if has_list then
                     py_bind (py_getitem val ''user-list'') (\<lambda>ul.
                     Inr (if \<not> is_list ul then 1 else 0, 0))
                   else Inr (1, 0))))))"

definition automation_verify_groups_syntax :: "yaml \<Rightarrow> counts py" where
  "automation_verify_groups_syntax groups =
     py_bind (py_items groups) (\<lambda>kvs. sum_items automation_group_entry kvs)"

text \<open>Here \<open>IPNetwork\<close> is called outside any \<open>try\<close>, and there is no other check.\<close>

definition automation_network_entry :: "env \<Rightarrow> string \<Rightarrow> string \<times> yaml \<Rightarrow> counts py" where
  "automation_network_entry env name kv =
     (case kv of (key, val) \<Rightarrow>
     py_bind (py_in ''subnet'' val) (\<lambda>has_subnet.
       if \<not> has_subnet then Inr (0, 1)
       else
         py_bind (py_getitem val ''subnet'') (\<lambda>sn.
         py_bind (IPNetwork env sn) (\<lambda>subnet.
           if is_reserved subnet \<or> is_multicast subnet \<or> is_loopback subnet
           then Inr (1, 0)
           else if \<not> is_private subnet then Inr (0, 1)
           else Inr (0, 0)))))"

definition automation_verify_network :: "env \<Rightarrow> string \<Rightarrow> yaml \<Rightarrow> counts py" where
  "automation_verify_network env name network =
     py_bind (py_items network) (\<lambda>kvs. sum_items (automation_network_entry env name) kvs)"

definition automation_instances_check :: "yaml \<Rightarrow> nat py" where
  "automation_instances_check val =
     py_bind (py_in ''instances'' val) (\<lambda>has_instances.
       if has_instances then
         py_bind (py_getitem val ''instances'') (\<lambda>inst.
         py_bind (py_in ''number'' inst) (\<lambda>has_number.
           if has_number then
             py_bind (py_getitem inst ''number'') (\<lambda>n. Inr (if \<not> is_int n then 1 else 0))
           else
             py_bind (py_in ''size-of'' inst) (\<lambda>has_size. Inr (if has_size then 0 else 1))))
       else Inr 0)"

definition automation_folder_service_entry :: "string \<times> yaml \<Rightarrow> counts py" where
  "automation_folder_service_entry kv =
     (case kv of (skey, svalue) \<Rightarrow>
     py_bind (py_in ''service'' svalue) (\<lambda>has_service.
     py_bind (py_in ''networks'' svalue) (\<lambda>has_networks.
     py_bind (if has_networks
              then py_bind (py_getitem svalue ''networks'') (\<lambda>n.
                   Inr (if \<not> is_list n then 1 else 0))
              else Inr 0) (\<lambda>e2.
     Inr ((if \<not> has_service then 1 else 0) + e2, 0)))))"

definition automation_base_folder_check :: "yaml \<Rightarrow> counts py" where
  "automation_base_folder_check val =
     py_bind (py_in ''group'' val) (\<lambda>has_group.
     py_bind (py_getitem val ''services'') (\<lambda>services.
     py_bind (py_items services) (\<lambda>kvs.
     py_bind (sum_items automation_folder_service_entry kvs) (\<lambda>(e, w).
     Inr ((if \<not> has_group then 1 else 0) + e, w)))))"

text \<open>
  The loop has no list of keywords: every key of a parent folder is taken for a folder. The
  counts are the loop's state, since the parent branch assigns to both of them the result
  of the recursive call.
\<close>

fun automation_verify_folders_syntax :: "yaml \<Rightarrow> counts py"
  and automation_folders_loop :: "counts \<Rightarrow> (string \<times> yaml) list \<Rightarrow> counts py" where
  "automation_verify_folders_syntax (YMap kvs) = automation_folders_loop (0, 0) kvs"
| "automation_verify_folders_syntax v = Inl AttributeError"
| "automation_folders_loop acc [] = Inr acc"
| "automation_folders_loop acc ((key, val) # rest) =
     py_bind (automation_instances_check val) (\<lambda>e1.
     py_bind (py_in ''services'' val) (\<lambda>is_base.
       if is_base then
         py_bind (automation_base_folder_check val) (\<lambda>(e2, w2).
         automation_folders_loop (fst acc + e1 + e2, snd acc + w2) rest)
       else
         py_bind (automation_verify_folders_syntax val) (\<lambda>(e, w).
         automation_folders_loop (e, w) rest)))"

section \<open>Master creation on vSphere (automation/vsphere_interface.py)\<close>

text \<open>
  The vSphere server object and the helper functions that act on it (cloning, snapshots,
  notes, port groups) are not part of the modelled code; they are the fields of
  \<open>server\<close>, acting on a platform state \<open>'p\<close> with handles \<open>'h\<close>. Each may raise.
  \<open>get_vm\<close> returns \<open>None\<close> when no virtual machine has the name; \<open>clone_vm\<close> stands
  for \<open>clone_vm\<close> with the clone specification the server generates for it;
  \<open>network_count\<close> is \<open>len(list(vm.network))\<close>.
\<close>

record ('p, 'h) server =
  srv_create_folder :: "string \<Rightarrow> 'h \<Rightarrow> 'p \<Rightarrow> ('h py) \<times> 'p"
  get_vm :: "yaml \<Rightarrow> 'p \<Rightarrow> (('h option) py) \<times> 'p"
  clone_vm :: "'h option \<Rightarrow> 'h \<Rightarrow> string \<Rightarrow> 'p \<Rightarrow> (unit py) \<times> 'p"
  network_count :: "'h \<Rightarrow> 'p \<Rightarrow> nat"
  set_note :: "'h \<Rightarrow> yaml \<Rightarrow> 'p \<Rightarrow> (unit py) \<times> 'p"
  create_snapshot :: "'h \<Rightarrow> string \<Rightarrow> string \<Rightarrow> 'p \<Rightarrow> (unit py) \<times> 'p"
  get_host :: "'p \<Rightarrow> ('h py) \<times> 'p"
  RefreshNetworkSystem :: "'h \<Rightarrow> 'p \<Rightarrow> (unit py) \<times> 'p"
  create_portgroup :: "string \<Rightarrow> 'h \<Rightarrow> yaml \<Rightarrow> yaml \<Rightarrow> 'p \<Rightarrow> (unit py) \<times> 'p"
  srv_folder_name :: "'h \<Rightarrow> 'p \<Rightarrow> string"

text \<open>The fields of \<open>VsphereInterface\<close> that the phase reads.\<close>

record 'h vsphere_interface =
  self_networks :: yaml
  self_services :: yaml
  self_root_folder :: 'h

definition master_prefix :: string where
  "master_prefix = ''(MASTER) ''"

definition master_folder_name :: string where
  "master_folder_name = ''MASTER_FOLDERS''"

text \<open>
  A statement runs in a world: the platform state and the log written so far. It returns
  a value or raises, and the world is kept in both cases.
\<close>

record 'p world =
  platform :: 'p
  log :: "logline list"

type_synonym ('p, 'a) stmt = "'p world \<Rightarrow> ('a py) \<times> 'p world"

definition st_bind :: "('p, 'a) stmt \<Rightarrow> ('a \<Rightarrow> ('p, 'b) stmt) \<Rightarrow> ('p, 'b) stmt" where
  "st_bind m f w = (case m w of (Inl e, w') \<Rightarrow> (Inl e, w') | (Inr x, w') \<Rightarrow> f x w')"

definition st_return :: "'a \<Rightarrow> ('p, 'a) stmt" where
  "st_return x w = (Inr x, w)"

definition st_py :: "'a py \<Rightarrow> ('p, 'a) stmt" where
  "st_py r w = (r, w)"

definition st_platform :: "('p \<Rightarrow> ('a py) \<times> 'p) \<Rightarrow> ('p, 'a) stmt" where
  "st_platform op w = (case op (platform w) of (r, p') \<Rightarrow> (r, w\<lparr>platform := p'\<rparr>))"

definition logging :: "level \<Rightarrow> string \<Rightarrow> yaml list \<Rightarrow> ('p, unit) stmt" where
  "logging lv fmt args w = (Inr (), w\<lparr>log := log w @ [(lv, fmt, args)]\<rparr>)"

text \<open>A \<open>for\<close> loop over a list: the bodies run in order and an exception ends the loop.\<close>

fun st_for :: "'a list \<Rightarrow> ('a \<Rightarrow> ('p, unit) stmt) \<Rightarrow> ('p, unit) stmt" where
  "st_for [] body w = (Inr (), w)"
| "st_for (x # xs) body w =
     (case body x w of (Inl e, w') \<Rightarrow> (Inl e, w') | (Inr u, w') \<Rightarrow> st_for xs body w')"

text \<open>
  Iterating over a value (a dict gives its keys, a string its characters), subscripting
  with any value, and \<open>len\<close>.
\<close>

fun py_iter :: "yaml \<Rightarrow> yaml list py" where
  "py_iter (YMap kvs) = Inr (map (\<lambda>kv. YStr (fst kv)) kvs)"
| "py_iter (YSeq xs) = Inr xs"
| "py_iter (YStr s) = Inr (map (\<lambda>c. YStr [c]) s)"
| "py_iter _ = Inl TypeError"

definition py_index :: "'a list \<Rightarrow> int \<Rightarrow> 'a py" where
  "py_index xs i =
     (if 0 \<le> i \<and> i < int (length xs) then Inr (xs ! nat i)
      else if i < 0 \<and> - i \<le> int (length xs) then Inr (xs ! nat (int (length xs) + i))
      else Inl IndexError)"

fun py_subscript :: "yaml \<Rightarrow> yaml \<Rightarrow> yaml py" where
  "py_subscript (YMap kvs) (YStr k) = py_getitem (YMap kvs) k"
| "py_subscript (YMap kvs) (YSeq xs) = Inl TypeError"
| "py_subscript (YMap kvs) (YMap m) = Inl TypeError"
| "py_subscript (YMap kvs) k = Inl KeyError"
| "py_subscript (YSeq xs) (YInt i) = py_index xs i"
| "py_subscript (YSeq xs) (YBool b) = py_index xs (if b then 1 else 0)"
| "py_subscript (YStr s) (YInt i) = py_bind (py_index s i) (\<lambda>c. Inr (YStr [c]))"
| "py_subscript (YStr s) (YBool b) =
     py_bind (py_index s (if b then 1 else 0)) (\<lambda>c. Inr (YStr [c]))"
| "py_subscript v k = Inl TypeError"

fun py_len :: "yaml \<Rightarrow> nat py" where
  "py_len (YSeq xs) = Inr (length xs)"
| "py_len (YStr s) = Inr (length s)"
| "py_len (YMap kvs) = Inr (length kvs)"
| "py_len _ = Inl TypeError"

text \<open>\<open>_create_master_networks\<close>: one port group for each network of the class.\<close>

definition create_master_networks ::
  "('p, 'h) server \<Rightarrow> 'h vsphere_interface \<Rightarrow> yaml \<Rightarrow> ('p, unit) stmt" where
  "create_master_networks srv self net_type =
     st_bind (st_platform (get_host srv)) (\<lambda>host.
     st_bind (st_platform (RefreshNetworkSystem srv host)) (\<lambda>u.
     st_bind (st_py (py_bind (py_subscript (self_networks self) net_type) py_items)) (\<lambda>kvs.
     st_for kvs (\<lambda>(name, config).
       st_bind (st_py (py_in ''vlan'' config)) (\<lambda>has_vlan.
       st_bind (st_py (if has_vlan then py_getitem config ''vlan'' else Inr (YInt 0))) (\<lambda>vlan.
       st_bind (st_py (py_getitem config ''vswitch'')) (\<lambda>vswitch.
       st_platform (create_portgroup srv name host vswitch vlan))))))))"

text \<open>
  The body of the loop over the services. A service without \<open>template\<close> is passed over.
  When the clone is not found afterwards an error is logged and the body ends
  (\<open>continue\<close>). Otherwise the number of declared networks is compared with the number of
  the clone's networks; when they are equal the source evaluates \<open>zip\<close> of the list with
  an integer, which raises \<open>TypeError\<close> before the loop over the interfaces starts.
  \<open>configure_master\<close> is the part of the body after the clone has been found.
\<close>

definition configure_master ::
  "('p, 'h) server \<Rightarrow> yaml \<Rightarrow> 'h \<Rightarrow> ('p, unit) stmt" where
  "configure_master srv service_config vm =
     st_bind (st_py (py_getitem service_config ''networks'')) (\<lambda>nets.
     st_bind (st_py (py_len nets)) (\<lambda>n.
     st_bind (\<lambda>w. if n = network_count srv vm (platform w)
                   then (Inl TypeError, w) else (Inr (), w)) (\<lambda>u.
     st_bind (st_py (py_in ''note'' service_config)) (\<lambda>has_note.
     st_bind (if has_note
              then st_bind (st_py (py_getitem service_config ''note'')) (\<lambda>note.
                   st_platform (set_note srv vm note))
              else st_return ()) (\<lambda>u.
     st_platform (create_snapshot srv vm ''post-clone''
       ''Clean snapshot taken after cloning and configuration.''))))))"

definition create_master ::
  "('p, 'h) server \<Rightarrow> 'h \<Rightarrow> string \<times> yaml \<Rightarrow> ('p, unit) stmt" where
  "create_master srv master_folder kv =
     (case kv of (service_name, service_config) \<Rightarrow>
     st_bind (st_py (py_in ''template'' service_config)) (\<lambda>has_template.
       if \<not> has_template then st_return ()
       else
         st_bind (st_py (py_getitem service_config ''template'')) (\<lambda>template_name.
         st_bind (logging INFO ''Creating master for service %s from template %s''
                    [YStr service_name, template_name]) (\<lambda>u.
         st_bind (st_platform (get_vm srv template_name)) (\<lambda>template.
         st_bind (st_platform
                    (clone_vm srv template master_folder (master_prefix @ service_name))) (\<lambda>u.
         st_bind (st_platform (get_vm srv (YStr (master_prefix @ service_name)))) (\<lambda>new_vm.
           (case new_vm of
              None \<Rightarrow>
                logging ERROR ''Did not successfully clone VM %s''
                  [YStr (master_prefix @ service_name)]
            | Some vm \<Rightarrow> configure_master srv service_config vm))))))))"

definition create_masters ::
  "('p, 'h) server \<Rightarrow> 'h vsphere_interface \<Rightarrow> ('p, unit) stmt" where
  "create_masters srv self =
     st_bind (st_platform (srv_create_folder srv master_folder_name (self_root_folder self)))
       (\<lambda>master_folder.
     st_bind (\<lambda>w. logging INFO ''Created master folder %s under folder %s''
                [YStr master_folder_name, YStr (srv_folder_name srv (self_root_folder self) (platform w))]
                w) (\<lambda>u.
     st_bind (st_py (py_iter (self_networks self))) (\<lambda>net_types.
     st_bind (st_for net_types (create_master_networks srv self)) (\<lambda>u.
     st_bind (st_py (py_items (self_services self))) (\<lambda>kvs.
     st_for kvs (create_master srv master_folder))))))"

section \<open>Example documents and platforms\<close>

text \<open>
  An inventory for the examples: the root folder holds the folder \<open>MASTER_FOLDERS\<close>,
  which holds the virtual machine \<open>target\<close>, and beside it the virtual machine \<open>web\<close>.
\<close>

definition example_vm :: entity where
  "example_vm = Entity 3 (Some ''target'') VimVirtualMachine []"

definition example_master_folder :: entity where
  "example_master_folder = Entity 2 (Some ''MASTER_FOLDERS'') VimFolder [example_vm]"

definition example_root :: entity where
  "example_root =
     Entity 1 (Some ''root'') VimFolder
       [example_master_folder, Entity 4 (Some ''web'') VimVirtualMachine []]"

text \<open>
  A folder in which a virtual machine and a folder one level further down have the same
  name up to case.
\<close>

definition example_labs :: entity where
  "example_labs =
     Entity 10 (Some ''labs'') VimFolder
       [Entity 11 (Some ''Lab'') VimVirtualMachine [],
        Entity 12 (Some ''sub'') VimFolder [Entity 13 (Some ''lab'') VimFolder []]]"

text \<open>
  A file system and a \<open>netaddr\<close> for the examples. \<open>spec.yaml\<close> is a complete
  exercise specification whose folders nest three levels deep, \<open>bad.yaml\<close> has none of
  the sections, \<open>package.yaml\<close> is a package specification without the recommended fields.
\<close>

definition example_IPNetwork :: "yaml \<Rightarrow> ipnet py" where
  "example_IPNetwork v =
     (if v = YStr ''192.168.1.0/24'' then
        Inr \<lparr>is_reserved = False, is_multicast = False, is_loopback = False, is_private = True\<rparr>
      else if v = YStr ''8.8.8.0/24'' then
        Inr \<lparr>is_reserved = False, is_multicast = False, is_loopback = False, is_private = False\<rparr>
      else if v = YStr ''127.0.0.0/8'' then
        Inr \<lparr>is_reserved = False, is_multicast = False, is_loopback = True, is_private = False\<rparr>
      else if v = YStr ''224.0.0.0/4'' then
        Inr \<lparr>is_reserved = False, is_multicast = True, is_loopback = False, is_private = False\<rparr>
      else Inl AddrFormatError)"

definition example_infra :: yaml where
  "example_infra =
     YMap [(''vmware-vsphere'',
       YMap [(''hostname'', YStr ''vcenter.example''), (''port'', YInt 443),
             (''login-file'', YStr ''login.json''), (''template-folder'', YStr ''Templates''),
             (''datacenter'', YStr ''dc''), (''datastore'', YStr ''ds''),
             (''server-root'', YStr ''root''), (''vswitch'', YStr ''vs0'')])]"

definition example_folders :: yaml where
  "example_folders =
     YMap [(''top'',
       YMap [(''group'', YStr ''students''), (''instances'', YInt 2),
             (''mid'',
               YMap [(''group'', YStr ''students''), (''enabled'', YBool True),
                     (''leaf'',
                       YMap [(''group'', YStr ''students''),
                             (''instances'', YMap [(''number'', YInt 3)]),
                             (''services'',
                               YMap [(''web'', YMap [(''service'', YStr ''web'')])])])])])]"

definition example_spec_sections :: "(string \<times> yaml) list" where
  "example_spec_sections =
     [(''metadata'',
        YMap [(''name'', YStr ''lab''), (''prefix'', YStr ''L1''),
              (''infra-file'', YStr ''infra.yaml''), (''description'', YStr ''a lab''),
              (''version'', YStr ''1''), (''folder-name'', YStr ''labs'')]),
      (''groups'', YMap [(''students'', YMap [(''ad-group'', YStr ''Students'')])]),
      (''services'', YMap [(''web'', YMap [(''template'', YStr ''ubuntu'')])]),
      (''networks'',
        YMap [(''unique-networks'',
                YMap [(''lan'', YMap [(''subnet'', YStr ''192.168.1.0/24'')])])]),
      (''folders'', example_folders)]"

definition example_package :: yaml where
  "example_package =
     YMap [(''metadata'', YMap [(''timestamp'', YStr ''today''), (''tag'', YStr ''v1'')]),
           (''contents'', YMap [(''environment'', YStr ''spec.yaml'')])]"

definition example_env :: env where
  "example_env =
     \<lparr>path_exists = (\<lambda>p. Inr (p = YStr ''infra.yaml'' \<or> p = YStr ''spec.yaml''
                              \<or> p = YStr ''bad.yaml'' \<or> p = YStr ''package.yaml'')),
      load_yaml = (\<lambda>p. if p = YStr ''infra.yaml'' then Inr example_infra
                        else if p = YStr ''spec.yaml'' then Inr (YMap example_spec_sections)
                        else if p = YStr ''bad.yaml'' then Inr (YMap [(''bogus'', YInt 1)])
                        else if p = YStr ''package.yaml'' then Inr example_package
                        else Inl (OtherError ''FileNotFoundError'')),
      read_json = (\<lambda>p. Inr (if p = YStr ''login.json'' then YMap [(''user'', YStr ''u'')]
                             else YNull)),
      IPNetwork = example_IPNetwork,
      int_of_string = (\<lambda>s. Inl ValueError)\<rparr>"

text \<open>
  A server for the examples. Its state lists the virtual machines by name with the number
  of their networks, and a handle is a name. Cloning the template \<open>broken\<close> fails without
  an exception, so that the clone does not appear.
\<close>

definition example_server :: "((string \<times> nat) list, string) server" where
  "example_server =
     \<lparr>srv_create_folder = (\<lambda>nm parent p. (Inr nm, p)),
      get_vm = (\<lambda>n p. (Inr (case n of
                               YStr s \<Rightarrow> (if s \<in> set (map fst p) then Some s else None)
                             | _ \<Rightarrow> None), p)),
      clone_vm = (\<lambda>tmpl folder nm p.
         (Inr (), case tmpl of
                    Some t \<Rightarrow> (if t = ''broken'' then p
                               else p @ [(nm, case map_of p t of Some n \<Rightarrow> n | None \<Rightarrow> 0)])
                  | None \<Rightarrow> p)),
      network_count = (\<lambda>h p. case map_of p h of Some n \<Rightarrow> n | None \<Rightarrow> 0),
      set_note = (\<lambda>h note p. (Inr (), p)),
      create_snapshot = (\<lambda>h n d p. (Inr (), p)),
      get_host = (\<lambda>p. (Inr ''host'', p)),
      RefreshNetworkSystem = (\<lambda>h p. (Inr (), p)),
      create_portgroup = (\<lambda>n h vs vl p. (Inr (), p)),
      srv_folder_name = (\<lambda>h p. h)\<rparr>"

definition example_world :: "(string \<times> nat) list world" where
  "example_world = \<lparr>platform = [(''ubuntu'', 1), (''broken'', 1)], log = []\<rparr>"

definition example_interface :: "(string \<times> yaml) list \<Rightarrow> string vsphere_interface" where
  "example_interface svcs =
     \<lparr>self_networks =
        YMap [(''unique-networks'', YMap [(''lan'', YMap [(''vswitch'', YStr ''vs0'')])])],
      self_services = YMap svcs,
      self_root_folder = ''lab''\<rparr>"

definition example_db :: "string \<times> yaml" where
  "example_db =
     (''db'', YMap [(''template'', YStr ''ubuntu''),
                    (''networks'', YSeq [YStr ''lan'', YStr ''wan''])])"

section \<open>Unfolding the models\<close>

lemmas validator_defs =
  verify_exercise_syntax_def funcs_def section_check_def required_def optional_def
  verify_exercise_metadata_syntax_def verify_infra_syntax_def parse_file_def
  vsphere_config_errors_def docker_config_errors_def
  verify_groups_syntax_def group_entry_def check_group_file_def
  verify_services_syntax_def service_entry_def verify_resources_syntax_def
  verify_networks_syntax_def verify_network_def network_entry_def subnet_check_def
  vlan_check_def increment_check_def
  folder_keywords_def instances_check_def base_folder_check_def folder_service_entry_def
  verify_scoring_syntax_def verify_package_syntax_def

lemmas automation_defs =
  automation_instances_check_def automation_base_folder_check_def
  automation_folder_service_entry_def automation_verify_network_def
  automation_network_entry_def automation_verify_groups_syntax_def automation_group_entry_def

lemmas example_defs =
  example_env_def example_spec_sections_def example_folders_def example_infra_def
  example_IPNetwork_def example_package_def

lemmas create_masters_defs =
  create_masters_def create_master_def configure_master_def create_master_networks_def
  st_bind_def st_return_def st_py_def st_platform_def logging_def
  master_prefix_def master_folder_name_def

lemmas example_server_defs =
  example_server_def example_interface_def example_world_def example_db_def

lemma py_in_map_of: "py_in k (YMap kvs) = Inr (map_of kvs k \<noteq> None)"
  by (simp add: map_of_eq_None_iff)

section \<open>Results about the generic interface\<close>

text \<open>
  C9. At the generic Interface level, cleanup_environment and cleanup_masters are equal up
  to their log message: for every interface object, every platform state and every value of
  the network_cleanup flag, the returned value (or raised exception), the platform state
  afterwards and all log lines but the format string of the first are the same; and
  cleanup_environment does not depend on the platform object's own cleanup_environment
  method, which it never invokes.
\<close>

theorem Interface_cleanup_environment_eq_cleanup_masters:
  "relabel_result ''Cleaning up environment for %s''
       (Interface_cleanup_masters self network_cleanup s)
     = Interface_cleanup_environment self network_cleanup s
   \<and> relabel_result ''Cleaning up Master instances for %s''
       (Interface_cleanup_environment self network_cleanup s)
     = Interface_cleanup_masters self network_cleanup s
   \<and> Interface_cleanup_environment
       (self\<lparr>self_interface := (self_interface self)\<lparr>impl_cleanup_environment := other\<rparr>\<rparr>)
       network_cleanup s
     = Interface_cleanup_environment self network_cleanup s"
  by (simp add: Interface_cleanup_environment_def Interface_cleanup_masters_def
      logged_call_def relabel_result_def split: sum.splits prod.splits)

section \<open>Results about the inventory functions\<close>

lemma find_in_children_recursive_irrelevant:
  "find_in_children cs nm recursive vt = find_in_children cs nm False vt"
  by (induction cs arbitrary: recursive) (simp_all add: Let_def)

lemma find_in_children_Some:
  "find_in_children cs nm recursive vt = Some x \<Longrightarrow>
     x \<in> set cs \<and> (\<exists>n. entity_name x = Some n \<and> lower n = nm)
     \<and> (\<forall>t. vt = Some t \<longrightarrow> isinstance x t)"
  by (induction cs arbitrary: recursive) (auto simp: Let_def split: if_splits option.splits)

lemma find_in_children_None:
  "(find_in_children cs nm recursive vt = None) =
     (\<forall>x \<in> set cs. \<not> ((\<exists>n. entity_name x = Some n \<and> lower n = nm)
        \<and> (\<forall>t. vt = Some t \<longrightarrow> isinstance x t)))"
  by (induction cs arbitrary: recursive) (auto simp: Let_def split: if_splits option.splits)

lemma find_in_children_unique:
  "find_in_children cs nm recursive None = Some x \<Longrightarrow>
   c \<in> set cs \<Longrightarrow> entity_name c = Some n \<Longrightarrow> lower n = nm \<Longrightarrow>
   \<forall>d \<in> set cs. (\<exists>m. entity_name d = Some m \<and> lower m = nm) \<longrightarrow> d = c \<Longrightarrow> x = c"
  using find_in_children_Some [of cs nm recursive None x] by blast

lemma lower_char_idem: "lower_char (lower_char c) = lower_char c"
  by (auto simp add: lower_char_def split: if_splits)

lemma lower_idem: "lower (lower s) = lower s"
  by (simp add: lower_def lower_char_idem)

lemma find_in_folder_children:
  "find_in_folder folder nm recursive vt =
     find_in_children (childEntity folder) (lower nm) recursive vt"
  by (cases folder) simp

text \<open>
  The loop returns the first child, in the order of \<open>childEntity\<close>, whose name is the
  wanted one and whose class fits the type asked for, if there is a type.
\<close>

lemma find_in_children_find:
  "find_in_children cs nm recursive vt =
     List.find (\<lambda>c. (case entity_name c of None \<Rightarrow> False | Some n \<Rightarrow> lower n = nm)
                  \<and> (case vt of None \<Rightarrow> True | Some t \<Rightarrow> isinstance c t)) cs"
  by (induction cs arbitrary: recursive) (auto simp: Let_def split: option.splits)

text \<open>
  C10. find_in_folder only ever returns a direct child of the folder argument, one whose
  name equals the wanted name up to case and which is of the type asked for, if any. The
  flag recursive does not change the result: a match that exists only deeper than one level
  is never returned. The result is None exactly when no direct child has the name up to
  case and fits the type, whatever the sub-folders hold; in particular it is None when no
  direct child has the name. Otherwise it is the first such direct child. Names that are
  equal up to case give the same result.
\<close>

theorem find_in_folder_direct_child_only:
  "(find_in_folder folder nm recursive vt = Some x \<longrightarrow>
      x \<in> set (childEntity folder) \<and> (\<exists>n. entity_name x = Some n \<and> lower n = lower nm)
      \<and> (\<forall>t. vt = Some t \<longrightarrow> isinstance x t))
   \<and> find_in_folder folder nm True vt = find_in_folder folder nm False vt
   \<and> ((\<forall>c \<in> set (childEntity folder). \<forall>n. entity_name c = Some n \<longrightarrow> lower n \<noteq> lower nm) \<longrightarrow>
        find_in_folder folder nm recursive vt = None)
   \<and> (lower nm' = lower nm \<longrightarrow>
        find_in_folder folder nm' recursive vt = find_in_folder folder nm recursive vt)
   \<and> ((find_in_folder folder nm recursive vt = None) =
        (\<forall>c \<in> set (childEntity folder).
           \<not> ((\<exists>n. entity_name c = Some n \<and> lower n = lower nm)
              \<and> (\<forall>t. vt = Some t \<longrightarrow> isinstance c t))))
   \<and> find_in_folder folder nm recursive vt =
        List.find (\<lambda>c. (case entity_name c of None \<Rightarrow> False | Some n \<Rightarrow> lower n = lower nm)
                     \<and> (case vt of None \<Rightarrow> True | Some t \<Rightarrow> isinstance c t))
          (childEntity folder)"
proof -
  let ?cs = "childEntity folder"
  have a: "find_in_folder folder nm recursive vt = Some x \<longrightarrow>
      x \<in> set ?cs \<and> (\<exists>n. entity_name x = Some n \<and> lower n = lower nm)
      \<and> (\<forall>t. vt = Some t \<longrightarrow> isinstance x t)"
    unfolding find_in_folder_children
    using find_in_children_Some [of ?cs "lower nm" recursive vt x] by blast
  have b: "find_in_folder folder nm True vt = find_in_folder folder nm False vt"
    using find_in_children_recursive_irrelevant [of ?cs "lower nm" True vt]
    by (simp add: find_in_folder_children)
  have c: "(\<forall>c \<in> set ?cs. \<forall>n. entity_name c = Some n \<longrightarrow> lower n \<noteq> lower nm) \<longrightarrow>
        find_in_folder folder nm recursive vt = None"
    by (simp add: find_in_folder_children find_in_children_None)
  have d: "lower nm' = lower nm \<longrightarrow>
        find_in_folder folder nm' recursive vt = find_in_folder folder nm recursive vt"
    by (simp add: find_in_folder_children)
  have e: "(find_in_folder folder nm recursive vt = None) =
        (\<forall>c \<in> set ?cs.
           \<not> ((\<exists>n. entity_name c = Some n \<and> lower n = lower nm)
              \<and> (\<forall>t. vt = Some t \<longrightarrow> isinstance c t)))"
    unfolding find_in_folder_children by (rule find_in_children_None)
  have f: "find_in_folder folder nm recursive vt =
        List.find (\<lambda>c. (case entity_name c of None \<Rightarrow> False | Some n \<Rightarrow> lower n = lower nm)
                     \<and> (case vt of None \<Rightarrow> True | Some t \<Rightarrow> isinstance c t)) ?cs"
    unfolding find_in_folder_children by (rule find_in_children_find)
  from a b c d e f show ?thesis by blast
qed

theorem find_in_folder_direct_child_only_witness:
  "find_in_folder example_root ''Master_Folders'' True None = Some example_master_folder
   \<and> example_master_folder \<in> set (childEntity example_root)
   \<and> find_in_folder example_root ''TARGET'' True None = None
   \<and> find_in_folder example_master_folder ''TARGET'' True None = Some example_vm
   \<and> find_in_folder example_root ''MASTER_FOLDERS'' True None
       = find_in_folder example_root ''Master_Folders'' True None
   \<and> find_in_folder example_labs ''LAB'' True (Some VimFolder) = None
   \<and> find_in_folder example_labs ''LAB'' True None
       = Some (Entity 11 (Some ''Lab'') VimVirtualMachine [])"
proof -
  have l: "lower ''MASTER_FOLDERS'' = lower ''Master_Folders''"
    by (simp add: lower_def lower_char_def)
  have n: "\<forall>c \<in> set (childEntity example_root).
             \<forall>n. entity_name c = Some n \<longrightarrow> lower n \<noteq> lower ''TARGET''"
    by (simp add: example_root_def example_master_folder_def lower_def lower_char_def)
  have k: "\<forall>c \<in> set (childEntity example_labs).
             \<not> ((\<exists>n. entity_name c = Some n \<and> lower n = lower ''LAB'')
                \<and> (\<forall>t. Some VimFolder = Some t \<longrightarrow> isinstance c t))"
    by (simp add: example_labs_def lower_def lower_char_def isinstance_def)
  have m: "find_in_folder example_root ''Master_Folders'' True None = Some example_master_folder"
    using find_in_folder_direct_child_only [of example_root "''Master_Folders''" True None]
    by (simp add: example_root_def example_master_folder_def example_vm_def lower_def
        lower_char_def)
  have v: "find_in_folder example_master_folder ''TARGET'' True None = Some example_vm"
    using find_in_folder_direct_child_only [of example_master_folder "''TARGET''" True None]
    by (simp add: example_master_folder_def example_vm_def lower_def lower_char_def)
  have a: "example_master_folder \<in> set (childEntity example_root)"
    using find_in_folder_direct_child_only
      [of example_root "''Master_Folders''" True None example_master_folder]
      m
    by blast
  have t: "find_in_folder example_root ''TARGET'' True None = None"
    using find_in_folder_direct_child_only [of example_root "''TARGET''" True None] n
    by blast
  have e: "find_in_folder example_root ''MASTER_FOLDERS'' True None
       = find_in_folder example_root ''Master_Folders'' True None"
    using find_in_folder_direct_child_only
      [of example_root "''Master_Folders''" True None _ "''MASTER_FOLDERS''"]
      l
    by blast
  have ty: "find_in_folder example_labs ''LAB'' True (Some VimFolder) = None"
    using find_in_folder_direct_child_only [of example_labs "''LAB''" True "Some VimFolder"] k
    by blast
  have ci: "find_in_folder example_labs ''LAB'' True None
       = Some (Entity 11 (Some ''Lab'') VimVirtualMachine [])"
    using find_in_folder_direct_child_only [of example_labs "''LAB''" True None]
    by (simp add: example_labs_def lower_def lower_char_def)
  from m a t v e ty ci show ?thesis by blast
qed

text \<open>
  C8. create_folder is idempotent in the folder name. When a child of the parent folder
  already has the name (names compare up to case, as in find_in_folder), create_folder
  returns the handle of an existing child with that name, logs one warning and no error,
  does not call the platform to create anything and leaves the parent as it was; calling it
  again with the same arguments returns the same handle. When only one child has the name,
  that child is the one returned.
\<close>

theorem create_folder_idempotent:
  assumes "c \<in> set (childEntity folder)" and "entity_name c = Some n"
    and "lower n = lower folder_name"
  shows "\<exists>ex fmt args.
           create_folder CreateFolder folder folder_name
             = (Inr (Some ex), folder, [(WARNING, fmt, args)])
         \<and> ex \<in> set (childEntity folder)
         \<and> (\<exists>m. entity_name ex = Some m \<and> lower m = lower folder_name)
         \<and> ((\<forall>d \<in> set (childEntity folder).
               (\<exists>m. entity_name d = Some m \<and> lower m = lower folder_name) \<longrightarrow> d = c) \<longrightarrow> ex = c)
         \<and> create_folder CreateFolder' folder folder_name
             = create_folder CreateFolder folder folder_name
         \<and> create_folder CreateFolder
               (fst (snd (create_folder CreateFolder folder folder_name))) folder_name
             = create_folder CreateFolder folder folder_name"
proof -
  let ?cs = "childEntity folder"
  have "find_in_children ?cs (lower folder_name) False None \<noteq> None"
    using assms by (auto simp: find_in_children_None)
  then obtain ex where ex: "find_in_children ?cs (lower folder_name) False None = Some ex"
    by blast
  have f: "find_in_folder folder folder_name False None = Some ex"
    using ex by (simp add: find_in_folder_children)
  have p: "ex \<in> set ?cs \<and> (\<exists>m. entity_name ex = Some m \<and> lower m = lower folder_name)"
    using find_in_children_Some [OF ex] by simp
  have u: "(\<forall>d \<in> set ?cs. (\<exists>m. entity_name d = Some m \<and> lower m = lower folder_name) \<longrightarrow> d = c)
             \<longrightarrow> ex = c"
    using find_in_children_unique [OF ex assms(1) assms(2) assms(3)] by blast
  from f p u show ?thesis
    by (simp add: create_folder_def Let_def)
qed

theorem create_folder_idempotent_witness:
  "create_folder (\<lambda>f nm. Inl (InvalidName nm)) example_root ''master_folders''
     = (Inr (Some example_master_folder), example_root,
        [(WARNING, ''Folder '' @ sq @ ''%s'' @ sq @ '' already exists in folder '' @ sq @ ''%s'' @ sq,
          [YStr ''master_folders'', YStr ''root''])])
   \<and> example_master_folder \<in> set (childEntity example_root)"
proof -
  have a: "example_master_folder \<in> set (childEntity example_root)"
    by (simp add: example_root_def)
  have b: "entity_name example_master_folder = Some ''MASTER_FOLDERS''"
    by (simp add: example_master_folder_def)
  have c: "lower ''MASTER_FOLDERS'' = lower ''master_folders''"
    by (simp add: lower_def lower_char_def)
  have d: "create_folder (\<lambda>f nm. Inl (InvalidName nm)) example_root ''master_folders''
     = (Inr (Some example_master_folder), example_root,
        [(WARNING, ''Folder '' @ sq @ ''%s'' @ sq @ '' already exists in folder '' @ sq @ ''%s'' @ sq,
          [YStr ''master_folders'', YStr ''root''])])"
    by (simp add: create_folder_def example_root_def example_master_folder_def example_vm_def
        lower_def lower_char_def is_folder_def isinstance_def)
  from create_folder_idempotent [OF a b c, of "\<lambda>f nm. Inl (InvalidName nm)"] a d
  show ?thesis by simp
qed

text \<open>
  When the name is new and the platform creates the folder, a second call finds the child
  the first call made, provided the platform has put it under the parent with that name.
\<close>

lemma create_folder_twice:
  assumes "find_in_folder folder folder_name False None = None"
    and "CreateFolder folder folder_name = Inr (folder', created)"
    and "find_in_folder folder' folder_name False None = Some created"
  shows "fst (create_folder CreateFolder folder folder_name) = Inr (Some created)
       \<and> fst (create_folder CreateFolder folder' folder_name) = Inr (Some created)
       \<and> fst (snd (create_folder CreateFolder folder' folder_name)) = folder'"
  using assms by (simp add: create_folder_def Let_def)

section \<open>Results about the validator\<close>

subsection \<open>Groups\<close>

text \<open>
  The groups checker adds up \<open>group_entry\<close> over the groups of the section.
\<close>

lemma verify_groups_syntax_Cons:
  "verify_groups_syntax env (YMap (kv # rest)) =
     py_bind (group_entry env kv) (\<lambda>(e, w).
     py_bind (verify_groups_syntax env (YMap rest)) (\<lambda>(e', w'). Inr (e + e', w + w')))"
  by (simp add: verify_groups_syntax_def)

text \<open>
  C1, as amended. The membership of a group is checked by a chain that tries \<open>ad-group\<close>,
  then \<open>filename\<close>, then (for a group without \<open>instances\<close>) \<open>user-list\<close>, and looks at
  the first mechanism present only. A group without \<open>instances\<close> and with none of the
  three yields exactly one error. A template group with neither \<open>ad-group\<close> nor
  \<open>filename\<close> yields one error for the membership, and one more when \<open>instances\<close> is
  not an integer. A group that has \<open>ad-group\<close> yields an error for the membership only
  when that value is not a string, and one without \<open>ad-group\<close> that has \<open>filename\<close>
  yields what the check of the file yields (for a template group together with the error
  for \<open>instances\<close>, if any), whatever else they have. A
  group without \<open>instances\<close>, \<open>ad-group\<close> and \<open>filename\<close> whose \<open>user-list\<close> is not
  a sequence yields exactly one error, and none when it is one. The earlier validator
  agrees, except that it looks neither at the type of \<open>ad-group\<close> nor into the file.
\<close>

theorem group_entry_membership:
  "(map_of kvs ''instances'' = None \<and> map_of kvs ''ad-group'' = None
      \<and> map_of kvs ''filename'' = None \<and> map_of kvs ''user-list'' = None \<longrightarrow>
      group_entry env (key, YMap kvs) = Inr (1, 0)
      \<and> automation_group_entry (key, YMap kvs) = Inr (1, 0))
   \<and> (map_of kvs ''instances'' = Some i \<and> map_of kvs ''ad-group'' = None
      \<and> map_of kvs ''filename'' = None \<longrightarrow>
      group_entry env (key, YMap kvs) = Inr ((if is_int i then 0 else 1) + 1, 0)
      \<and> automation_group_entry (key, YMap kvs) = Inr ((if is_int i then 0 else 1) + 1, 0))
   \<and> (map_of kvs ''instances'' = None \<and> map_of kvs ''ad-group'' = Some ad \<longrightarrow>
      group_entry env (key, YMap kvs) = Inr (if is_str ad then 0 else 1, 0)
      \<and> automation_group_entry (key, YMap kvs) = Inr (0, 0))
   \<and> (map_of kvs ''instances'' = Some i \<and> map_of kvs ''ad-group'' = Some ad \<longrightarrow>
      group_entry env (key, YMap kvs)
        = Inr ((if is_int i then 0 else 1) + (if is_str ad then 0 else 1), 0)
      \<and> automation_group_entry (key, YMap kvs) = Inr (if is_int i then 0 else 1, 0))
   \<and> (map_of kvs ''instances'' = None \<and> map_of kvs ''ad-group'' = None
      \<and> map_of kvs ''filename'' = Some fn \<longrightarrow>
      group_entry env (key, YMap kvs) = check_group_file env fn
      \<and> automation_group_entry (key, YMap kvs) = Inr (0, 0))
   \<and> (map_of kvs ''instances'' = None \<and> map_of kvs ''ad-group'' = None
      \<and> map_of kvs ''filename'' = None \<and> map_of kvs ''user-list'' = Some ul \<longrightarrow>
      group_entry env (key, YMap kvs) = Inr (if is_list ul then 0 else 1, 0)
      \<and> automation_group_entry (key, YMap kvs) = Inr (if is_list ul then 0 else 1, 0))
   \<and> (map_of kvs ''instances'' = Some i \<and> map_of kvs ''ad-group'' = None
      \<and> map_of kvs ''filename'' = Some fn \<longrightarrow>
      group_entry env (key, YMap kvs)
        = py_bind (check_group_file env fn)
            (\<lambda>(e, w). Inr ((if is_int i then 0 else 1) + e, w))
      \<and> automation_group_entry (key, YMap kvs) = Inr (if is_int i then 0 else 1, 0))"
  by (simp add: group_entry_def automation_group_entry_def py_in_map_of del: py_in.simps)

theorem group_entry_membership_witness:
  "group_entry example_env (''g'', YMap [(''description'', YStr ''nobody'')]) = Inr (1, 0)
   \<and> group_entry example_env (''g'', YMap [(''instances'', YStr ''ten'')]) = Inr (2, 0)
   \<and> group_entry example_env
        (''g'', YMap [(''ad-group'', YStr ''Students''), (''user-list'', YSeq [YStr ''alice''])])
      = Inr (0, 0)
   \<and> group_entry example_env
        (''g'', YMap [(''instances'', YInt 10), (''ad-group'', YInt 7),
                      (''filename'', YStr ''users.json'')])
      = Inr (1, 0)
   \<and> group_entry example_env
        (''g'', YMap [(''filename'', YStr ''users.json''), (''user-list'', YStr ''alice'')])
      = Inr (1, 0)
   \<and> group_entry example_env (''g'', YMap [(''user-list'', YStr ''alice'')]) = Inr (1, 0)
   \<and> group_entry example_env
        (''g'', YMap [(''instances'', YInt 3), (''filename'', YStr ''login.json''),
                      (''user-list'', YSeq [])])
      = Inr (0, 0)
   \<and> automation_group_entry
        (''g'', YMap [(''instances'', YInt 3), (''filename'', YStr ''login.json''),
                      (''user-list'', YSeq [])])
      = Inr (0, 0)"
  using group_entry_membership
          [of "[(''description'', YStr ''nobody'')]" example_env "''g''"]
        group_entry_membership
          [of "[(''instances'', YStr ''ten'')]" example_env "''g''" "YStr ''ten''"]
        group_entry_membership
          [of "[(''ad-group'', YStr ''Students''), (''user-list'', YSeq [YStr ''alice''])]"
              example_env "''g''" _ "YStr ''Students''"]
        group_entry_membership
          [of "[(''instances'', YInt 10), (''ad-group'', YInt 7),
                (''filename'', YStr ''users.json'')]"
              example_env "''g''" "YInt 10" "YInt 7"]
        group_entry_membership
          [of "[(''filename'', YStr ''users.json''), (''user-list'', YStr ''alice'')]"
              example_env "''g''" _ _ "YStr ''users.json''"]
        group_entry_membership
          [of "[(''user-list'', YStr ''alice'')]" example_env "''g''" _ _ _ "YStr ''alice''"]
        group_entry_membership
          [of "[(''instances'', YInt 3), (''filename'', YStr ''login.json''),
                (''user-list'', YSeq [])]"
              example_env "''g''" "YInt 3" _ "YStr ''login.json''"]
  by (simp add: check_group_file_def example_env_def)

text \<open>
  C1 as stated fails: a group with both \<open>ad-group\<close> and \<open>user-list\<close>, the latter a
  string, has more than one mechanism and a \<open>user-list\<close> that is not a sequence, and
  yields no error in either validator.
\<close>

theorem verify_groups_syntax_two_mechanisms_counterexample:
  "verify_groups_syntax example_env
     (YMap [(''students'',
             YMap [(''ad-group'', YStr ''Students''), (''user-list'', YStr ''alice'')])])
     = Inr (0, 0)
   \<and> automation_verify_groups_syntax
     (YMap [(''students'',
             YMap [(''ad-group'', YStr ''Students''), (''user-list'', YStr ''alice'')])])
     = Inr (0, 0)"
  by (simp add: validator_defs automation_defs)

subsection \<open>Networks\<close>

text \<open>
  An entry's counts are those of its subnet, VLAN and increment checks together.
\<close>

lemma network_entry_plain:
  "map_of kvs ''vlan'' = None \<Longrightarrow> map_of kvs ''increment'' = None \<Longrightarrow>
     network_entry env name (key, YMap kvs) = subnet_check env (YMap kvs)"
  by (cases "subnet_check env (YMap kvs)")
     (auto simp add: network_entry_def vlan_check_def increment_check_def py_in_map_of
        simp del: py_in.simps)

text \<open>
  C2, as amended. For every network entry carrying a \<open>vlan\<close> key: under
  \<open>unique-networks\<close> an integer value of 2000 or more yields an error and a smaller one
  yields none; under \<open>generic-networks\<close> the key yields an error whatever its value;
  under any other name, \<open>base-networks\<close> among them, the key is not checked and yields no
  error. Accordingly an entry of \<open>generic-networks\<close> with the key, and one of
  \<open>unique-networks\<close> with a value of 2000 or more, never validates without an error,
  and an entry of \<open>unique-networks\<close> with a smaller value and no \<open>increment\<close> has the
  counts of its subnet check alone.
\<close>

theorem vlan_check_rule:
  assumes "map_of kvs ''vlan'' = Some v"
  shows "(v = YInt i \<longrightarrow>
            vlan_check env ''unique-networks'' (YMap kvs) = Inr (if i \<ge> 2000 then 1 else 0))
       \<and> vlan_check env ''generic-networks'' (YMap kvs) = Inr 1
       \<and> (name \<noteq> ''unique-networks'' \<and> name \<noteq> ''generic-networks'' \<longrightarrow>
            vlan_check env name (YMap kvs) = Inr 0)
       \<and> (network_entry env ''generic-networks'' (key, YMap kvs) = Inr (e, w) \<longrightarrow> 1 \<le> e)
       \<and> (v = YInt i \<and> 2000 \<le> i
            \<and> network_entry env ''unique-networks'' (key, YMap kvs) = Inr (e, w) \<longrightarrow> 1 \<le> e)
       \<and> (v = YInt i \<and> i < 2000 \<and> map_of kvs ''increment'' = None \<longrightarrow>
            network_entry env ''unique-networks'' (key, YMap kvs) = subnet_check env (YMap kvs))"
proof -
  have a: "v = YInt i \<longrightarrow>
            vlan_check env ''unique-networks'' (YMap kvs) = Inr (if i \<ge> 2000 then 1 else 0)"
    using assms by (simp add: vlan_check_def py_in_map_of del: py_in.simps)
  have b: "vlan_check env ''generic-networks'' (YMap kvs) = Inr 1"
    using assms by (simp add: vlan_check_def py_in_map_of del: py_in.simps)
  have c: "name \<noteq> ''unique-networks'' \<and> name \<noteq> ''generic-networks'' \<longrightarrow>
            vlan_check env name (YMap kvs) = Inr 0"
    using assms by (simp add: vlan_check_def py_in_map_of del: py_in.simps)
  have d: "network_entry env ''generic-networks'' (key, YMap kvs) = Inr (e, w) \<longrightarrow> 1 \<le> e"
    using b
    by (cases "subnet_check env (YMap kvs)";
        cases "increment_check ''generic-networks'' (YMap kvs)")
       (auto simp add: network_entry_def)
  have f: "v = YInt i \<and> 2000 \<le> i
            \<and> network_entry env ''unique-networks'' (key, YMap kvs) = Inr (e, w) \<longrightarrow> 1 \<le> e"
    using a
    by (cases "subnet_check env (YMap kvs)";
        cases "increment_check ''unique-networks'' (YMap kvs)")
       (auto simp add: network_entry_def)
  have g: "v = YInt i \<and> i < 2000 \<and> map_of kvs ''increment'' = None \<longrightarrow>
            network_entry env ''unique-networks'' (key, YMap kvs) = subnet_check env (YMap kvs)"
    using a
    by (cases "subnet_check env (YMap kvs)")
       (auto simp add: network_entry_def increment_check_def py_in_map_of simp del: py_in.simps)
  from a b c d f g show ?thesis by blast
qed

theorem vlan_check_rule_witness:
  "vlan_check example_env ''unique-networks'' (YMap [(''vlan'', YInt 2500)]) = Inr 1
   \<and> vlan_check example_env ''unique-networks'' (YMap [(''vlan'', YInt 100)]) = Inr 0
   \<and> vlan_check example_env ''generic-networks'' (YMap [(''vlan'', YInt 100)]) = Inr 1
   \<and> vlan_check example_env ''base-networks'' (YMap [(''vlan'', YInt 2500)]) = Inr 0
   \<and> network_entry example_env ''unique-networks'' (''lan'', YMap [(''vlan'', YInt 100)])
       = Inr (0, 1)"
proof -
  have h: "map_of [(''vlan'', YInt 2500)] ''vlan'' = Some (YInt 2500)"
    by simp
  have l: "map_of [(''vlan'', YInt 100)] ''vlan'' = Some (YInt 100)"
    by simp
  have s: "subnet_check example_env (YMap [(''vlan'', YInt 100)]) = Inr (0, 1)"
    by (simp add: subnet_check_def)
  from vlan_check_rule [OF h, of 2500 example_env "''base-networks''"]
       vlan_check_rule [OF l, of 100 example_env "''base-networks''" "''lan''"]
       s
  show ?thesis by simp
qed

text \<open>
  C2 as stated fails for \<open>base-networks\<close>: a network section with a VLAN of 2500 under
  \<open>base-networks\<close> validates without any error or warning.
\<close>

theorem vlan_under_base_networks_counterexample:
  "verify_networks_syntax example_env
     (YMap [(''unique-networks'',
               YMap [(''lan'', YMap [(''subnet'', YStr ''192.168.1.0/24'')])]),
            (''base-networks'',
               YMap [(''core'', YMap [(''subnet'', YStr ''192.168.1.0/24''),
                                      (''vlan'', YInt 2500)])])])
     = Inr (0, 0)"
  by (simp add: validator_defs example_defs)

text \<open>
  The subnet check of \<open>adles/parser.py\<close> does what C3 says in each of its five cases.
\<close>

lemma subnet_check_cases:
  "(map_of kvs ''subnet'' = None \<longrightarrow> subnet_check env (YMap kvs) = Inr (0, 1))
   \<and> (map_of kvs ''subnet'' = Some sn \<and> IPNetwork env sn = Inl AddrFormatError \<longrightarrow>
        subnet_check env (YMap kvs) = Inr (1, 0))
   \<and> (map_of kvs ''subnet'' = Some sn \<and> IPNetwork env sn = Inr net
        \<and> (is_reserved net \<or> is_multicast net \<or> is_loopback net) \<longrightarrow>
        subnet_check env (YMap kvs) = Inr (1, 0))
   \<and> (map_of kvs ''subnet'' = Some sn \<and> IPNetwork env sn = Inr net
        \<and> \<not> (is_reserved net \<or> is_multicast net \<or> is_loopback net)
        \<and> \<not> is_private net \<longrightarrow>
        subnet_check env (YMap kvs) = Inr (0, 1))
   \<and> (map_of kvs ''subnet'' = Some sn \<and> IPNetwork env sn = Inr net
        \<and> \<not> (is_reserved net \<or> is_multicast net \<or> is_loopback net)
        \<and> is_private net \<longrightarrow>
        subnet_check env (YMap kvs) = Inr (0, 0))"
  by (simp add: subnet_check_def py_in_map_of del: py_in.simps)

text \<open>
  The earlier validator agrees where the subnet is missing or well formed, and raises
  where it is malformed.
\<close>

lemma automation_network_entry_cases:
  "(map_of kvs ''subnet'' = None \<longrightarrow>
        automation_network_entry env name (key, YMap kvs) = Inr (0, 1))
   \<and> (map_of kvs ''subnet'' = Some sn \<and> IPNetwork env sn = Inr net \<longrightarrow>
        automation_network_entry env name (key, YMap kvs) = subnet_check env (YMap kvs))
   \<and> (map_of kvs ''subnet'' = Some sn \<and> IPNetwork env sn = Inl AddrFormatError \<longrightarrow>
        automation_network_entry env name (key, YMap kvs) = Inl AddrFormatError)"
  by (simp add: automation_network_entry_def subnet_check_def py_in_map_of del: py_in.simps)

text \<open>
  C3 at its failing input. For a network whose \<open>subnet\<close> is not a well-formed CIDR
  (here a prefix length of 33) the validator of \<open>adles/parser.py\<close> counts one error, as
  the claim says, and the network checker of \<open>automation/parser.py\<close> raises
  \<open>AddrFormatError\<close> instead of returning counts.
\<close>

theorem automation_verify_network_malformed_subnet:
  "automation_verify_network example_env ''unique-networks''
     (YMap [(''lan'', YMap [(''subnet'', YStr ''10.0.0.0/33'')])]) = Inl AddrFormatError
   \<and> verify_network example_env ''unique-networks''
     (YMap [(''lan'', YMap [(''subnet'', YStr ''10.0.0.0/33'')])]) = Inr (1, 0)"
  by (simp add: automation_defs validator_defs example_defs)

subsection \<open>Folders\<close>

text \<open>
  In \<open>adles/parser.py\<close> the entries with a reserved key can be taken out of the mapping
  the loop walks over without changing its result, whatever their values are. The function
  walks every level of the tree with this loop.
\<close>

lemma verify_folders_items_skips_keywords:
  "verify_folders_items (filter (\<lambda>kv. fst kv \<notin> set folder_keywords) kvs)
     = verify_folders_items kvs"
proof (induction kvs)
  case Nil
  show ?case by simp
next
  case (Cons kv kvs)
  obtain key val where kv: "kv = (key, val)" by (cases kv)
  show ?case
  proof (cases "key \<in> set folder_keywords")
    case True
    with Cons kv show ?thesis by simp
  next
    case False
    with Cons kv show ?thesis by simp
  qed
qed

lemma verify_folders_syntax_skips_keywords:
  "verify_folders_syntax (YMap (filter (\<lambda>kv. fst kv \<notin> set folder_keywords) kvs))
     = verify_folders_syntax (YMap kvs)"
  by (simp add: verify_folders_items_skips_keywords)

text \<open>
  Folders three levels deep with reserved keys at every level, none of them a mapping
  except one \<open>instances\<close>, give no error.
\<close>

lemma verify_folders_syntax_three_levels:
  "verify_folders_syntax example_folders = Inr (0, 0)"
  by (simp add: validator_defs example_defs)

text \<open>
  C6 at its failing input. The folder-tree validator of \<open>automation/parser.py\<close> has no
  list of reserved keys: in a parent folder it takes the key \<open>group\<close> for a child folder,
  descends into its value, a string, and raises \<open>AttributeError\<close>. The validator of
  \<open>adles/parser.py\<close> skips the key and reports nothing for the same tree.
\<close>

theorem automation_verify_folders_syntax_reserved_key:
  "automation_verify_folders_syntax
     (YMap [(''top'',
       YMap [(''group'', YStr ''students''),
             (''leaf'',
               YMap [(''group'', YStr ''students''),
                     (''services'', YMap [(''web'', YMap [(''service'', YStr ''web'')])])])])])
     = Inl AttributeError
   \<and> verify_folders_syntax
     (YMap [(''top'',
       YMap [(''group'', YStr ''students''),
             (''leaf'',
               YMap [(''group'', YStr ''students''),
                     (''services'', YMap [(''web'', YMap [(''service'', YStr ''web'')])])])])])
     = Inr (0, 0)"
  by (simp add: automation_defs validator_defs sublist_Cons_right)

text \<open>
  With reserved keys in the base folders only, which neither validator walks over, the
  earlier validator gives a result.
\<close>

lemma automation_verify_folders_syntax_leaf_only:
  "automation_verify_folders_syntax
     (YMap [(''top'',
       YMap [(''leaf'',
               YMap [(''group'', YStr ''students''), (''instances'', YMap [(''number'', YInt 3)]),
                     (''services'', YMap [(''web'', YMap [(''service'', YStr ''web'')])])])])])
     = Inr (0, 0)"
  by (simp add: automation_defs)

subsection \<open>The whole specification\<close>

text \<open>
  A section that is missing counts one error when it is required and nothing when it is
  optional.
\<close>

lemma section_check_missing:
  "map_of kvs key = None \<Longrightarrow>
     section_check (YMap kvs) (key, func) =
       Inr (if key \<in> set required then (1, 0)
            else if key \<in> set optional then (0, 0) else (0, 1))"
  by (simp add: section_check_def map_of_eq_None_iff)

lemma sum_items_errors_ge:
  assumes "sum_items f xs = Inr (e, w)"
    and "\<And>x ex wx. x \<in> set xs \<Longrightarrow> f x = Inr (ex, wx) \<Longrightarrow> g x \<le> ex"
  shows "sum_list (map g xs) \<le> e"
  using assms
proof (induction xs arbitrary: e w)
  case Nil
  then show ?case by simp
next
  case (Cons x xs)
  from Cons.prems(1) obtain ex wx where fx: "f x = Inr (ex, wx)"
    by (cases "f x") auto
  from Cons.prems(1) fx obtain e' w' where rest: "sum_items f xs = Inr (e', w')"
    by (cases "sum_items f xs") auto
  from Cons.prems(1) fx rest have e: "e = ex + e'"
    by simp
  have "g x \<le> ex"
    using Cons.prems(2) fx by simp
  moreover have "sum_list (map g xs) \<le> e'"
    using Cons.IH [OF rest] Cons.prems(2) by simp
  ultimately show ?case
    using e by simp
qed

text \<open>
  So the error count of a document is at least the number of required sections it lacks.
\<close>

lemma verify_exercise_syntax_missing_required:
  assumes "verify_exercise_syntax env (YMap kvs) = Inr (e, w)"
  shows "length (filter (\<lambda>k. map_of kvs k = None) required) \<le> e"
proof -
  let ?g = "\<lambda>kf. if map_of kvs (fst kf) = None \<and> fst kf \<in> set required then 1 else (0::nat)"
  have "sum_list (map ?g (funcs env)) \<le> e"
  proof (rule sum_items_errors_ge)
    show "sum_items (section_check (YMap kvs)) (funcs env) = Inr (e, w)"
      using assms by (simp add: verify_exercise_syntax_def)
  next
    fix x :: "string \<times> (yaml \<Rightarrow> counts py)" and ex wx
    assume "section_check (YMap kvs) x = Inr (ex, wx)"
    then show "?g x \<le> ex"
      using section_check_missing [of kvs "fst x" "snd x"] by (cases x) auto
  qed
  moreover have "sum_list (map ?g (funcs env))
      = length (filter (\<lambda>k. map_of kvs k = None) required)"
    by (simp add: funcs_def required_def)
  ultimately show ?thesis by simp
qed

lemma map_of_other_key:
  "key \<noteq> k \<Longrightarrow> map_of (pre @ (k, v) # post) key = map_of (pre @ post) key"
  by (induction pre) auto

lemma section_check_other_key:
  assumes "key \<noteq> k"
  shows "section_check (YMap (pre @ (k, v) # post)) (key, func)
       = section_check (YMap (pre @ post)) (key, func)"
proof -
  have m: "map_of (pre @ (k, v) # post) key = map_of (pre @ post) key"
    using assms by (rule map_of_other_key)
  show ?thesis
    unfolding section_check_def prod.case py_in_map_of py_getitem.simps m ..
qed

lemma sum_items_cong_on:
  "(\<And>x. x \<in> set xs \<Longrightarrow> f x = g x) \<Longrightarrow> sum_items f xs = sum_items g xs"
  by (induction xs) simp_all

text \<open>
  The loop runs over the six known keys, not over the keys of the document, so a key of
  the document that is none of the six is never looked at: taking it out of the document
  leaves the result as it is.
\<close>

lemma verify_exercise_syntax_ignores_unknown:
  assumes "k \<notin> set required" and "k \<notin> set optional"
  shows "verify_exercise_syntax env (YMap (pre @ (k, v) # post))
       = verify_exercise_syntax env (YMap (pre @ post))"
proof -
  have "\<And>kf. kf \<in> set (funcs env) \<Longrightarrow>
          section_check (YMap (pre @ (k, v) # post)) kf = section_check (YMap (pre @ post)) kf"
    using assms by (auto simp: funcs_def required_def optional_def section_check_other_key)
  then show ?thesis
    unfolding verify_exercise_syntax_def by (rule sum_items_cong_on)
qed

text \<open>
  C5 at its failing input. The complete example specification with one more top-level
  key, \<open>bogus\<close>, validates with no warning, and a document that has only that key gets
  the five errors for the required sections and no warning: the unrecognized key does not
  increment the warning count.
\<close>

theorem verify_exercise_syntax_unknown_key:
  "verify_exercise_syntax example_env (YMap (example_spec_sections @ [(''bogus'', YInt 1)]))
     = Inr (0, 0)
   \<and> verify_exercise_syntax example_env (YMap [(''bogus'', YInt 1)]) = Inr (5, 0)"
  by (simp add: validator_defs example_defs)

subsection \<open>Acceptance\<close>

text \<open>
  C7. check_syntax accepts a specification exactly when validation produced zero errors.
  For a specification file that exists and parses, and each of the three kinds of
  specification, when the validation of that kind returns the counts (errors, warnings)
  then check_syntax returns the parsed specification if errors is 0, whatever warnings
  is, and None otherwise.
\<close>

theorem check_syntax_accepts_iff_no_errors:
  assumes "path_exists env (YStr specfile_path) = Inr True"
    and "parse_file env (YStr specfile_path) = Inr spec" and "spec \<noteq> YNull"
  shows "(verify_exercise_syntax env spec = Inr (errors, warnings) \<longrightarrow>
            check_syntax env specfile_path ''exercise''
              = Inr (if errors = 0 then spec else YNull))
       \<and> (verify_package_syntax spec = Inr (errors, warnings) \<longrightarrow>
            check_syntax env specfile_path ''package''
              = Inr (if errors = 0 then spec else YNull))
       \<and> (verify_infra_syntax env spec = Inr (errors, warnings) \<longrightarrow>
            check_syntax env specfile_path ''infra''
              = Inr (if errors = 0 then spec else YNull))"
  using assms by (simp add: check_syntax_def)

theorem check_syntax_accepts_iff_no_errors_witness:
  "check_syntax example_env ''spec.yaml'' ''exercise'' = Inr (YMap example_spec_sections)
   \<and> check_syntax example_env ''bad.yaml'' ''exercise'' = Inr YNull
   \<and> verify_package_syntax example_package = Inr (0, 8)
   \<and> check_syntax example_env ''package.yaml'' ''package'' = Inr example_package"
proof -
  have e1: "path_exists example_env (YStr ''spec.yaml'') = Inr True"
    by (simp add: example_env_def)
  have p1: "parse_file example_env (YStr ''spec.yaml'') = Inr (YMap example_spec_sections)"
    by (simp add: parse_file_def example_env_def)
  have v1: "verify_exercise_syntax example_env (YMap example_spec_sections) = Inr (0, 0)"
    by (simp add: validator_defs example_defs)
  have a: "check_syntax example_env ''spec.yaml'' ''exercise'' = Inr (YMap example_spec_sections)"
    using check_syntax_accepts_iff_no_errors [OF e1 p1, of 0 0] v1 by simp
  have e2: "path_exists example_env (YStr ''bad.yaml'') = Inr True"
    by (simp add: example_env_def)
  have p2: "parse_file example_env (YStr ''bad.yaml'') = Inr (YMap [(''bogus'', YInt 1)])"
    by (simp add: parse_file_def example_env_def)
  have v2: "verify_exercise_syntax example_env (YMap [(''bogus'', YInt 1)]) = Inr (5, 0)"
    by (simp add: validator_defs)
  have b: "check_syntax example_env ''bad.yaml'' ''exercise'' = Inr YNull"
    using check_syntax_accepts_iff_no_errors [OF e2 p2, of 5 0] v2 by simp
  have e3: "path_exists example_env (YStr ''package.yaml'') = Inr True"
    by (simp add: example_env_def)
  have p3: "parse_file example_env (YStr ''package.yaml'') = Inr example_package"
    by (simp add: parse_file_def example_env_def)
  have n3: "example_package \<noteq> YNull"
    by (simp add: example_package_def)
  have v3: "verify_package_syntax example_package = Inr (0, 8)"
    by (simp add: validator_defs example_defs)
  have c: "check_syntax example_env ''package.yaml'' ''package'' = Inr example_package"
    using check_syntax_accepts_iff_no_errors [OF e3 p3 n3, of 0 8] v3 by simp
  from a b v3 c show ?thesis by blast
qed

section \<open>Results about master creation\<close>

lemma st_for_append:
  "st_for (xs @ ys) body w =
     (case st_for xs body w of (Inl e, w') \<Rightarrow> (Inl e, w') | (Inr u, w') \<Rightarrow> st_for ys body w')"
  by (induction xs arbitrary: w) (auto split: prod.splits sum.splits)

text \<open>
  C4, as amended. In the master-creation phase a clone that does not appear after
  creation is logged as an error and only that service is skipped: when the services before
  it have been processed, the template lookup and the clone call return, and the clone is
  not found, the loop goes on with every service after it, from the state the platform is
  in then and with the log extended by the line for the service and the error.
\<close>

theorem create_masters_skips_missing_clone:
  assumes pre: "st_for pre (create_master srv master_folder) w0 = (Inr (), w1)"
    and t: "py_in ''template'' service_config = Inr True"
    and tn: "py_getitem service_config ''template'' = Inr template_name"
    and g1: "get_vm srv template_name (platform w1) = (Inr template, p1)"
    and c: "clone_vm srv template master_folder (master_prefix @ service_name) p1 = (Inr (), p2)"
    and g2: "get_vm srv (YStr (master_prefix @ service_name)) p2 = (Inr None, p3)"
  shows "st_for (pre @ (service_name, service_config) # post) (create_master srv master_folder) w0
       = st_for post (create_master srv master_folder)
           (w1\<lparr>platform := p3,
               log := log w1 @
                 [(INFO, ''Creating master for service %s from template %s'',
                   [YStr service_name, template_name]),
                  (ERROR, ''Did not successfully clone VM %s'',
                   [YStr (master_prefix @ service_name)])]\<rparr>)"
proof -
  have one: "create_master srv master_folder (service_name, service_config) w1
       = (Inr (), w1\<lparr>platform := p3,
               log := log w1 @
                 [(INFO, ''Creating master for service %s from template %s'',
                   [YStr service_name, template_name]),
                  (ERROR, ''Did not successfully clone VM %s'',
                   [YStr (master_prefix @ service_name)])]\<rparr>)"
    using t tn g1 c g2
    by (simp add: create_master_def st_bind_def st_py_def st_platform_def logging_def)
  show ?thesis
    using pre one by (simp add: st_for_append)
qed

theorem create_masters_skips_missing_clone_witness:
  "st_for [(''web'', YMap [(''template'', YStr ''broken'')]), example_db]
     (create_master example_server ''MASTER_FOLDERS'') example_world
   = (Inr (),
      \<lparr>platform = [(''ubuntu'', 1), (''broken'', 1), (''(MASTER) db'', 1)],
       log = [(INFO, ''Creating master for service %s from template %s'',
                 [YStr ''web'', YStr ''broken'']),
              (ERROR, ''Did not successfully clone VM %s'', [YStr ''(MASTER) web'']),
              (INFO, ''Creating master for service %s from template %s'',
                 [YStr ''db'', YStr ''ubuntu''])]\<rparr>)"
proof -
  have pre: "st_for [] (create_master example_server ''MASTER_FOLDERS'') example_world
       = (Inr (), example_world)"
    by simp
  have t: "py_in ''template'' (YMap [(''template'', YStr ''broken'')]) = Inr True"
    by simp
  have tn: "py_getitem (YMap [(''template'', YStr ''broken'')]) ''template'' = Inr (YStr ''broken'')"
    by simp
  have g1: "get_vm example_server (YStr ''broken'') (platform example_world)
       = (Inr (Some ''broken''), [(''ubuntu'', 1), (''broken'', 1)])"
    by (simp add: example_server_defs)
  have c: "clone_vm example_server (Some ''broken'') ''MASTER_FOLDERS'' (master_prefix @ ''web'')
         [(''ubuntu'', 1), (''broken'', 1)]
       = (Inr (), [(''ubuntu'', 1), (''broken'', 1)])"
    by (simp add: example_server_defs)
  have g2: "get_vm example_server (YStr (master_prefix @ ''web'')) [(''ubuntu'', 1), (''broken'', 1)]
       = (Inr None, [(''ubuntu'', 1), (''broken'', 1)])"
    by (simp add: example_server_defs master_prefix_def)
  have rest: "st_for [example_db] (create_master example_server ''MASTER_FOLDERS'')
         (example_world\<lparr>platform := [(''ubuntu'', 1), (''broken'', 1)],
            log := log example_world @
              [(INFO, ''Creating master for service %s from template %s'',
                 [YStr ''web'', YStr ''broken'']),
               (ERROR, ''Did not successfully clone VM %s'', [YStr (master_prefix @ ''web'')])]\<rparr>)
       = (Inr (),
      \<lparr>platform = [(''ubuntu'', 1), (''broken'', 1), (''(MASTER) db'', 1)],
       log = [(INFO, ''Creating master for service %s from template %s'',
                 [YStr ''web'', YStr ''broken'']),
              (ERROR, ''Did not successfully clone VM %s'', [YStr ''(MASTER) web'']),
              (INFO, ''Creating master for service %s from template %s'',
                 [YStr ''db'', YStr ''ubuntu''])]\<rparr>)"
    by (simp add: create_masters_defs example_server_defs)
  from create_masters_skips_missing_clone [OF pre t tn g1 c g2, of "[example_db]"] rest
  show ?thesis by simp
qed

text \<open>
  C4 as stated fails: a failure of one service that surfaces as an exception ends the
  phase. Here the service \<open>web\<close> has no \<open>networks\<close> key; its clone is made and found,
  reading the key raises \<open>KeyError\<close>, and the service \<open>db\<close> after it is never
  processed: there is no log line and no clone for it.
\<close>

theorem create_masters_aborts_counterexample:
  "create_masters example_server
     (example_interface [(''web'', YMap [(''template'', YStr ''ubuntu'')]), example_db])
     example_world
   = (Inl KeyError,
      \<lparr>platform = [(''ubuntu'', 1), (''broken'', 1), (''(MASTER) web'', 1)],
       log = [(INFO, ''Created master folder %s under folder %s'',
                 [YStr ''MASTER_FOLDERS'', YStr ''lab'']),
              (INFO, ''Creating master for service %s from template %s'',
                 [YStr ''web'', YStr ''ubuntu''])]\<rparr>)"
  by (simp add: create_masters_defs example_server_defs)

text \<open>
  The same happens, with \<open>TypeError\<close>, for a service whose clone has as many networks as
  the service declares.
\<close>

lemma create_masters_matching_networks_raises:
  "create_masters example_server
     (example_interface
        [(''web'', YMap [(''template'', YStr ''ubuntu''), (''networks'', YSeq [YStr ''lan''])]),
         example_db])
     example_world
   = (Inl TypeError,
      \<lparr>platform = [(''ubuntu'', 1), (''broken'', 1), (''(MASTER) web'', 1)],
       log = [(INFO, ''Created master folder %s under folder %s'',
                 [YStr ''MASTER_FOLDERS'', YStr ''lab'']),
              (INFO, ''Creating master for service %s from template %s'',
                 [YStr ''web'', YStr ''ubuntu''])]\<rparr>)"
  by (simp add: create_masters_defs example_server_defs)

text \<open>The whole phase with a clone that does not appear: the next service is processed.\<close>

lemma create_masters_example:
  "create_masters example_server
     (example_interface [(''web'', YMap [(''template'', YStr ''broken'')]), example_db])
     example_world
   = (Inr (),
      \<lparr>platform = [(''ubuntu'', 1), (''broken'', 1), (''(MASTER) db'', 1)],
       log = [(INFO, ''Created master folder %s under folder %s'',
                 [YStr ''MASTER_FOLDERS'', YStr ''lab'']),
              (INFO, ''Creating master for service %s from template %s'',
                 [YStr ''web'', YStr ''broken'']),
              (ERROR, ''Did not successfully clone VM %s'', [YStr ''(MASTER) web'']),
              (INFO, ''Creating master for service %s from template %s'',
                 [YStr ''db'', YStr ''ubuntu''])]\<rparr>)"
  by (simp add: create_masters_defs example_server_defs)

end
